theory Spec2Isabelle
  imports Main "HOL-Library.Word"
begin

section \<open>Go values used by status.go\<close>

text \<open>
  A Go \<open>string\<close> is a sequence of bytes, as an Isabelle \<open>string\<close> is. A Go slice is
  either \<open>nil\<close> or a sequence (possibly empty): \<open>None\<close> is the nil slice. A pointer that the
  code only tests against \<open>nil\<close> and copies is an \<open>option\<close>. \<open>uint16\<close> and \<open>int64\<close> are
  words; Go's \<open>int\<close> is only copied through, and is an \<open>int\<close> here.
\<close>

type_synonym uint16 = "16 word"
type_synonym int64 = "64 word"
type_synonym Duration = "64 word"
type_synonym 'a slice = "'a list option"
type_synonym bytes = "char slice"

datatype error = Error string

definition elems :: "'a slice \<Rightarrow> 'a list" where
  \<comment> \<open>the elements a \<open>range\<close> loop visits, and the bytes of \<open>string(b)\<close>: none for nil\<close>
  "elems s = (case s of None \<Rightarrow> [] | Some xs \<Rightarrow> xs)"

definition make0 :: "'a slice" where
  \<comment> \<open>\<open>make([]T, 0)\<close>: empty and not nil\<close>
  "make0 = Some []"

definition append1 :: "'a slice \<Rightarrow> 'a \<Rightarrow> 'a slice" where
  \<comment> \<open>\<open>append(s, x)\<close>\<close>
  "append1 s x = Some (elems s @ [x])"

subsection \<open>The response types (status.go, lines 13 to 78)\<close>

record StatusResponse =
  Online :: bool
  Host :: string
  Port :: uint16
  EULABlocked :: bool

record JavaVersion =
  jv_NameRaw :: string
  jv_NameClean :: string
  jv_NameHTML :: string
  jv_Protocol :: int

record BedrockVersion =
  bv_Name :: "string option"
  bv_Protocol :: "int64 option"

record Player =
  pl_UUID :: string
  pl_NameRaw :: string
  pl_NameClean :: string
  pl_NameHTML :: string

record JavaPlayers =
  jp_Online :: int
  jp_Max :: int
  jp_List :: "Player slice"

record BedrockPlayers =
  bp_Online :: "int64 option"
  bp_Max :: "int64 option"

record MOTD =
  motd_Raw :: string
  motd_Clean :: string
  motd_HTML :: string

record Mod =
  mod_Name :: string
  mod_Version :: string

record JavaStatusResponse =
  java_StatusResponse :: StatusResponse
  java_Version :: "JavaVersion option"
  java_Players :: JavaPlayers
  java_MOTD :: MOTD
  java_Icon :: "string option"
  java_Mods :: "Mod slice"

record BedrockStatusResponse =
  bedrock_StatusResponse :: StatusResponse
  bedrock_Version :: "BedrockVersion option"
  bedrock_Players :: "BedrockPlayers option"
  bedrock_MOTD :: "MOTD option"
  bedrock_Gamemode :: "string option"
  bedrock_ServerID :: "string option"
  bedrock_Edition :: "string option"

text \<open>
  \<open>FetchJavaStatus\<close> and \<open>FetchBedrockStatus\<close> return \<open>interface{}\<close>: a value of one of
  three struct types.
\<close>

datatype response =
  Base StatusResponse
| Java JavaStatusResponse
| Bedrock BedrockStatusResponse

subsection \<open>The upstream records of the query library\<close>

text \<open>
  The structs of \<open>mcutil\<close> are declared outside this repository. These records have the
  fields that status.go reads, with the optionality it tests.
\<close>

record mc_Version =
  mcv_NameRaw :: string
  mcv_NameClean :: string
  mcv_NameHTML :: string
  mcv_Protocol :: int

record mc_SamplePlayer =
  mcs_ID :: string
  mcs_NameRaw :: string
  mcs_NameClean :: string
  mcs_NameHTML :: string

record mc_Players =
  mcp_Online :: int
  mcp_Max :: int
  mcp_Sample :: "mc_SamplePlayer slice"

record mc_LegacyPlayers =
  mclp_Online :: int
  mclp_Max :: int

record mc_MOTD =
  mcm_Raw :: string
  mcm_Clean :: string
  mcm_HTML :: string

record mc_Mod =
  mcmod_ID :: string
  mcmod_Version :: string

record mc_ModInfo =
  mci_Mods :: "mc_Mod slice"

record mc_JavaStatus =
  mcj_Version :: mc_Version
  mcj_Players :: mc_Players
  mcj_MOTD :: mc_MOTD
  mcj_Favicon :: "string option"
  mcj_ModInfo :: "mc_ModInfo option"

record mc_LegacyStatus =
  mcl_Version :: "mc_Version option"
  mcl_Players :: mc_LegacyPlayers
  mcl_MOTD :: mc_MOTD

record mc_BedrockStatus =
  mcb_Version :: "string option"
  mcb_ProtocolVersion :: "int64 option"
  mcb_OnlinePlayers :: "int64 option"
  mcb_MaxPlayers :: "int64 option"
  mcb_MOTD :: "mc_MOTD option"
  mcb_Gamemode :: "string option"
  mcb_ServerID :: "string option"
  mcb_Edition :: "string option"

section \<open>The collaborators\<close>

text \<open>
  The cache store \<open>r\<close>, the three query functions of \<open>mcutil\<close>, \<open>IsBlockedAddress\<close>, the
  configured durations and the default icon are defined outside status.go, and
  \<open>json.Marshal\<close> and \<open>base64.StdEncoding.DecodeString\<close> belong to Go's library. They are
  parameters: every theorem holds for all of them. A call that returns \<open>(v, err)\<close> and
  whose \<open>v\<close> the code reads only when \<open>err\<close> is nil returns a sum. The store has a state
  \<open>'s\<close>; a read returns from it and only \<open>r.Set\<close> returns a new one.
\<close>

record 's env =
  r_GetCacheString :: "'s \<Rightarrow> string \<Rightarrow> bool \<times> string \<times> Duration \<times> error option"
  r_GetCacheBytes :: "'s \<Rightarrow> string \<Rightarrow> bool \<times> bytes \<times> Duration \<times> error option"
  r_Set :: "'s \<Rightarrow> string \<Rightarrow> bytes \<Rightarrow> Duration \<Rightarrow> error option \<times> 's"
  mcutil_Status :: "string \<Rightarrow> uint16 \<Rightarrow> error + mc_JavaStatus"
  mcutil_StatusLegacy :: "string \<Rightarrow> uint16 \<Rightarrow> error + mc_LegacyStatus"
  mcutil_StatusBedrock :: "string \<Rightarrow> uint16 \<Rightarrow> error + mc_BedrockStatus"
  IsBlockedAddress :: "string \<Rightarrow> bool"
  json_Marshal :: "response \<Rightarrow> error + bytes"
  base64_DecodeString :: "string \<Rightarrow> error + bytes"
  config_JavaCacheDuration :: Duration
  config_BedrockCacheDuration :: Duration
  config_IconCacheDuration :: Duration
  defaultIconBytes :: bytes

text \<open>
  The state an operation runs in: the store, and the calls made to the store and to the
  query functions so far, oldest first.
\<close>

datatype call =
  Call_GetCacheString string
| Call_GetCacheBytes string
| Call_Set string bytes Duration
| Call_Status string uint16
| Call_StatusLegacy string uint16
| Call_StatusBedrock string uint16

record 's world =
  store :: 's
  calls :: "call list"

definition logged :: "call \<Rightarrow> 's world \<Rightarrow> 's world" where
  "logged c w = w\<lparr>calls := calls w @ [c]\<rparr>"

definition do_GetCacheString ::
  "'s env \<Rightarrow> string \<Rightarrow> 's world \<Rightarrow> (bool \<times> string \<times> Duration \<times> error option) \<times> 's world" where
  "do_GetCacheString env key w =
     (r_GetCacheString env (store w) key, logged (Call_GetCacheString key) w)"

definition do_GetCacheBytes ::
  "'s env \<Rightarrow> string \<Rightarrow> 's world \<Rightarrow> (bool \<times> bytes \<times> Duration \<times> error option) \<times> 's world" where
  "do_GetCacheBytes env key w =
     (r_GetCacheBytes env (store w) key, logged (Call_GetCacheBytes key) w)"

definition do_Set ::
  "'s env \<Rightarrow> string \<Rightarrow> bytes \<Rightarrow> Duration \<Rightarrow> 's world \<Rightarrow> error option \<times> 's world" where
  "do_Set env key v d w =
     (case r_Set env (store w) key v d of
        (err, s') \<Rightarrow> (err, (logged (Call_Set key v d) w)\<lparr>store := s'\<rparr>))"

definition do_Status ::
  "'s env \<Rightarrow> string \<Rightarrow> uint16 \<Rightarrow> 's world \<Rightarrow> (error + mc_JavaStatus) \<times> 's world" where
  "do_Status env host port w = (mcutil_Status env host port, logged (Call_Status host port) w)"

definition do_StatusLegacy ::
  "'s env \<Rightarrow> string \<Rightarrow> uint16 \<Rightarrow> 's world \<Rightarrow> (error + mc_LegacyStatus) \<times> 's world" where
  "do_StatusLegacy env host port w =
     (mcutil_StatusLegacy env host port, logged (Call_StatusLegacy host port) w)"

definition do_StatusBedrock ::
  "'s env \<Rightarrow> string \<Rightarrow> uint16 \<Rightarrow> 's world \<Rightarrow> (error + mc_BedrockStatus) \<times> 's world" where
  "do_StatusBedrock env host port w =
     (mcutil_StatusBedrock env host port, logged (Call_StatusBedrock host port) w)"

section \<open>FetchBedrockStatus (status.go, lines 255 to 335)\<close>

definition newBedrockVersion :: BedrockVersion where
  "newBedrockVersion = \<lparr>bv_Name = None, bv_Protocol = None\<rparr>"

definition newBedrockPlayers :: BedrockPlayers where
  "newBedrockPlayers = \<lparr>bp_Online = None, bp_Max = None\<rparr>"

definition copyMOTD :: "mc_MOTD \<Rightarrow> MOTD" where
  "copyMOTD m = \<lparr>motd_Raw = mcm_Raw m, motd_Clean = mcm_Clean m, motd_HTML = mcm_HTML m\<rparr>"

text \<open>The five \<open>if\<close> statements of lines 282 to 332, one function each, in order.\<close>

definition setVersionName :: "mc_BedrockStatus \<Rightarrow> BedrockStatusResponse \<Rightarrow> BedrockStatusResponse" where
  "setVersionName status response =
     (if mcb_Version status \<noteq> None then
        (let response1 =
               (if bedrock_Version response = None
                then response\<lparr>bedrock_Version := Some newBedrockVersion\<rparr>
                else response)
         in response1\<lparr>bedrock_Version :=
              map_option (\<lambda>v. v\<lparr>bv_Name := mcb_Version status\<rparr>) (bedrock_Version response1)\<rparr>)
      else response)"

definition setVersionProtocol :: "mc_BedrockStatus \<Rightarrow> BedrockStatusResponse \<Rightarrow> BedrockStatusResponse" where
  "setVersionProtocol status response =
     (if mcb_ProtocolVersion status \<noteq> None then
        (let response1 =
               (if bedrock_Version response = None
                then response\<lparr>bedrock_Version := Some newBedrockVersion\<rparr>
                else response)
         in response1\<lparr>bedrock_Version :=
              map_option (\<lambda>v. v\<lparr>bv_Protocol := mcb_ProtocolVersion status\<rparr>)
                (bedrock_Version response1)\<rparr>)
      else response)"

definition setPlayersOnline :: "mc_BedrockStatus \<Rightarrow> BedrockStatusResponse \<Rightarrow> BedrockStatusResponse" where
  "setPlayersOnline status response =
     (if mcb_OnlinePlayers status \<noteq> None then
        (let response1 =
               (if bedrock_Players response = None
                then response\<lparr>bedrock_Players := Some newBedrockPlayers\<rparr>
                else response)
         in response1\<lparr>bedrock_Players :=
              map_option (\<lambda>p. p\<lparr>bp_Online := mcb_OnlinePlayers status\<rparr>)
                (bedrock_Players response1)\<rparr>)
      else response)"

definition setPlayersMax :: "mc_BedrockStatus \<Rightarrow> BedrockStatusResponse \<Rightarrow> BedrockStatusResponse" where
  "setPlayersMax status response =
     (if mcb_MaxPlayers status \<noteq> None then
        (let response1 =
               (if bedrock_Players response = None
                then response\<lparr>bedrock_Players := Some newBedrockPlayers\<rparr>
                else response)
         in response1\<lparr>bedrock_Players :=
              map_option (\<lambda>p. p\<lparr>bp_Max := mcb_MaxPlayers status\<rparr>)
                (bedrock_Players response1)\<rparr>)
      else response)"

definition setMOTD :: "mc_BedrockStatus \<Rightarrow> BedrockStatusResponse \<Rightarrow> BedrockStatusResponse" where
  "setMOTD status response =
     (case mcb_MOTD status of
        None \<Rightarrow> response
      | Some m \<Rightarrow> response\<lparr>bedrock_MOTD := Some (copyMOTD m)\<rparr>)"

definition bedrockResponse :: "'s env \<Rightarrow> string \<Rightarrow> uint16 \<Rightarrow> mc_BedrockStatus \<Rightarrow> BedrockStatusResponse" where
  \<comment> \<open>lines 267 to 334: the literal, then the five updates\<close>
  "bedrockResponse env host port status =
     (let response =
            \<lparr>bedrock_StatusResponse =
               \<lparr>Online = True, Host = host, Port = port,
                EULABlocked = IsBlockedAddress env host\<rparr>,
             bedrock_Version = None,
             bedrock_Players = None,
             bedrock_MOTD = None,
             bedrock_Gamemode = mcb_Gamemode status,
             bedrock_ServerID = mcb_ServerID status,
             bedrock_Edition = mcb_Edition status\<rparr>
      in setMOTD status
           (setPlayersMax status
             (setPlayersOnline status
               (setVersionProtocol status
                 (setVersionName status response)))))"

definition FetchBedrockStatus ::
  "'s env \<Rightarrow> string \<Rightarrow> uint16 \<Rightarrow> 's world \<Rightarrow> response \<times> 's world" where
  "FetchBedrockStatus env host port w =
     (case do_StatusBedrock env host port w of
        (Inl err, w1) \<Rightarrow>
          (Base \<lparr>Online = False, Host = host, Port = port,
                 EULABlocked = IsBlockedAddress env host\<rparr>, w1)
      | (Inr status, w1) \<Rightarrow> (Bedrock (bedrockResponse env host port status), w1))"

section \<open>FetchJavaStatus (status.go, lines 154 to 253)\<close>

definition copyVersion :: "mc_Version \<Rightarrow> JavaVersion" where
  "copyVersion v =
     \<lparr>jv_NameRaw = mcv_NameRaw v, jv_NameClean = mcv_NameClean v,
      jv_NameHTML = mcv_NameHTML v, jv_Protocol = mcv_Protocol v\<rparr>"

definition legacyResponse :: "'s env \<Rightarrow> string \<Rightarrow> uint16 \<Rightarrow> mc_LegacyStatus \<Rightarrow> JavaStatusResponse" where
  \<comment> \<open>lines 169 to 200\<close>
  "legacyResponse env host port statusLegacy =
     (let response =
            \<lparr>java_StatusResponse =
               \<lparr>Online = True, Host = host, Port = port,
                EULABlocked = IsBlockedAddress env host\<rparr>,
             java_Version = None,
             java_Players =
               \<lparr>jp_Online = mclp_Online (mcl_Players statusLegacy),
                jp_Max = mclp_Max (mcl_Players statusLegacy),
                jp_List = make0\<rparr>,
             java_MOTD = copyMOTD (mcl_MOTD statusLegacy),
             java_Icon = None,
             java_Mods = make0\<rparr>
      in case mcl_Version statusLegacy of
           None \<Rightarrow> response
         | Some v \<Rightarrow> response\<lparr>java_Version := Some (copyVersion v)\<rparr>)"

primrec rangeSample :: "mc_SamplePlayer list \<Rightarrow> Player slice \<Rightarrow> Player slice" where
  \<comment> \<open>the loop of lines 206 to 213\<close>
  "rangeSample [] playerList = playerList"
| "rangeSample (player # rest) playerList =
     rangeSample rest
       (append1 playerList
          \<lparr>pl_UUID = mcs_ID player, pl_NameRaw = mcs_NameRaw player,
           pl_NameClean = mcs_NameClean player, pl_NameHTML = mcs_NameHTML player\<rparr>)"

primrec rangeMods :: "mc_Mod list \<Rightarrow> Mod slice \<Rightarrow> Mod slice" where
  \<comment> \<open>the loop of lines 219 to 224\<close>
  "rangeMods [] modList = modList"
| "rangeMods (m # rest) modList =
     rangeMods rest (append1 modList \<lparr>mod_Name = mcmod_ID m, mod_Version = mcmod_Version m\<rparr>)"

definition modernResponse :: "'s env \<Rightarrow> string \<Rightarrow> uint16 \<Rightarrow> mc_JavaStatus \<Rightarrow> JavaStatusResponse" where
  \<comment> \<open>lines 203 to 252\<close>
  "modernResponse env host port status =
     (let playerList0 = make0;
          playerList =
            (if mcp_Sample (mcj_Players status) \<noteq> None
             then rangeSample (elems (mcp_Sample (mcj_Players status))) playerList0
             else playerList0);
          modList0 = make0;
          modList =
            (case mcj_ModInfo status of
               None \<Rightarrow> modList0
             | Some info \<Rightarrow> rangeMods (elems (mci_Mods info)) modList0)
      in \<lparr>java_StatusResponse =
            \<lparr>Online = True, Host = host, Port = port,
             EULABlocked = IsBlockedAddress env host\<rparr>,
          java_Version = Some (copyVersion (mcj_Version status)),
          java_Players =
            \<lparr>jp_Online = mcp_Online (mcj_Players status),
             jp_Max = mcp_Max (mcj_Players status),
             jp_List = playerList\<rparr>,
          java_MOTD = copyMOTD (mcj_MOTD status),
          java_Icon = mcj_Favicon status,
          java_Mods = modList\<rparr>)"

definition FetchJavaStatus ::
  "'s env \<Rightarrow> string \<Rightarrow> uint16 \<Rightarrow> 's world \<Rightarrow> response \<times> 's world" where
  "FetchJavaStatus env host port w =
     (case do_Status env host port w of
        (Inl err, w1) \<Rightarrow>
          (case do_StatusLegacy env host port w1 of
             (Inl err', w2) \<Rightarrow>
               (Base \<lparr>Online = False, Host = host, Port = port,
                      EULABlocked = IsBlockedAddress env host\<rparr>, w2)
           | (Inr statusLegacy, w2) \<Rightarrow> (Java (legacyResponse env host port statusLegacy), w2))
      | (Inr status, w1) \<Rightarrow> (Java (modernResponse env host port status), w1))"

section \<open>The cache keys\<close>

definition digit :: "nat \<Rightarrow> char" where
  \<comment> \<open>the digit of a value below ten\<close>
  "digit d = ''0123456789'' ! d"

fun fmt_d :: "nat \<Rightarrow> string" where
  \<comment> \<open>the verb \<open>%d\<close> of \<open>fmt.Sprintf\<close> on an unsigned integer\<close>
  "fmt_d n = (if n < 10 then [digit n] else fmt_d (n div 10) @ [digit (n mod 10)])"

declare fmt_d.simps [simp del]

definition Sprintf_s_d :: "string \<Rightarrow> string \<Rightarrow> uint16 \<Rightarrow> string" where
  \<comment> \<open>\<open>fmt.Sprintf(p + "%s-%d", host, port)\<close> for a prefix \<open>p\<close> without verbs\<close>
  "Sprintf_s_d p host port = p @ host @ ''-'' @ fmt_d (unat port)"

section \<open>GetJavaStatus and GetBedrockStatus (status.go, lines 80 to 122)\<close>

type_synonym 'a result = "'a \<times> Duration option \<times> error option"

definition GetJavaStatus ::
  "'s env \<Rightarrow> string \<Rightarrow> uint16 \<Rightarrow> 's world \<Rightarrow> string result \<times> 's world" where
  "GetJavaStatus env host port w =
     (let cacheKey = Sprintf_s_d ''java:'' host port in
      case do_GetCacheString env cacheKey w of
        ((exists, value, ttl, err), w1) \<Rightarrow>
          if exists then ((value, Some ttl, err), w1)
          else
            (case FetchJavaStatus env host port w1 of
               (fetched, w2) \<Rightarrow>
                 (case json_Marshal env fetched of
                    Inl err \<Rightarrow> (([], None, Some err), w2)
                  | Inr response \<Rightarrow>
                      (case do_Set env cacheKey response (config_JavaCacheDuration env) w2 of
                         (Some err, w3) \<Rightarrow> (([], None, Some err), w3)
                       | (None, w3) \<Rightarrow> ((elems response, None, None), w3)))))"

definition GetBedrockStatus ::
  "'s env \<Rightarrow> string \<Rightarrow> uint16 \<Rightarrow> 's world \<Rightarrow> string result \<times> 's world" where
  "GetBedrockStatus env host port w =
     (let cacheKey = Sprintf_s_d ''bedrock:'' host port in
      case do_GetCacheString env cacheKey w of
        ((exists, value, ttl, err), w1) \<Rightarrow>
          if exists then ((value, Some ttl, err), w1)
          else
            (case FetchBedrockStatus env host port w1 of
               (fetched, w2) \<Rightarrow>
                 (case json_Marshal env fetched of
                    Inl err \<Rightarrow> (([], None, Some err), w2)
                  | Inr response \<Rightarrow>
                      (case do_Set env cacheKey response (config_BedrockCacheDuration env) w2 of
                         (Some err, w3) \<Rightarrow> (([], None, Some err), w3)
                       | (None, w3) \<Rightarrow> ((elems response, None, None), w3)))))"

section \<open>GetServerIcon (status.go, lines 124 to 152)\<close>

definition HasPrefix :: "string \<Rightarrow> string \<Rightarrow> bool" where
  "HasPrefix s p = (length p \<le> length s \<and> take (length p) s = p)"

definition TrimPrefix :: "string \<Rightarrow> string \<Rightarrow> string" where
  "TrimPrefix s p = (if HasPrefix s p then drop (length p) s else s)"

definition pngPrefix :: string where
  "pngPrefix = ''data:image/png;base64,''"

definition setIcon ::
  "'s env \<Rightarrow> string \<Rightarrow> bytes \<Rightarrow> 's world \<Rightarrow> bytes result \<times> 's world" where
  \<comment> \<open>lines 147 to 151\<close>
  "setIcon env cacheKey icon w =
     (case do_Set env cacheKey icon (config_IconCacheDuration env) w of
        (Some err, w') \<Rightarrow> ((None, None, Some err), w')
      | (None, w') \<Rightarrow> ((icon, None, None), w'))"

definition GetServerIcon ::
  "'s env \<Rightarrow> string \<Rightarrow> uint16 \<Rightarrow> 's world \<Rightarrow> bytes result \<times> 's world" where
  "GetServerIcon env host port w =
     (let cacheKey = Sprintf_s_d ''icon:'' host port in
      case do_GetCacheBytes env cacheKey w of
        ((exists, value, ttl, err), w1) \<Rightarrow>
          if exists then ((value, Some ttl, err), w1)
          else
            (let icon = defaultIconBytes env in
             case do_Status env host port w1 of
               (Inl err, w2) \<Rightarrow> setIcon env cacheKey icon w2
             | (Inr status, w2) \<Rightarrow>
                 (case mcj_Favicon status of
                    None \<Rightarrow> setIcon env cacheKey icon w2
                  | Some favicon \<Rightarrow>
                      if HasPrefix favicon pngPrefix then
                        (case base64_DecodeString env (TrimPrefix favicon pngPrefix) of
                           Inl err \<Rightarrow> ((None, None, Some err), w2)
                         | Inr data \<Rightarrow> setIcon env cacheKey data w2)
                      else setIcon env cacheKey icon w2)))"

section \<open>Observations and example collaborators\<close>

definition resValue :: "'a result \<Rightarrow> 'a" where
  "resValue r = fst r"

definition resTTL :: "'a result \<Rightarrow> Duration option" where
  "resTTL r = fst (snd r)"

definition resErr :: "'a result \<Rightarrow> error option" where
  "resErr r = snd (snd r)"

definition baseOf :: "response \<Rightarrow> StatusResponse" where
  \<comment> \<open>the embedded \<open>StatusResponse\<close> of whichever struct was returned\<close>
  "baseOf r =
     (case r of
        Base b \<Rightarrow> b
      | Java j \<Rightarrow> java_StatusResponse j
      | Bedrock b \<Rightarrow> bedrock_StatusResponse b)"

fun cacheKeyOf :: "call \<Rightarrow> string option" where
  \<comment> \<open>the key of a call to the store\<close>
  "cacheKeyOf (Call_GetCacheString k) = Some k"
| "cacheKeyOf (Call_GetCacheBytes k) = Some k"
| "cacheKeyOf (Call_Set k v d) = Some k"
| "cacheKeyOf (Call_Status h p) = None"
| "cacheKeyOf (Call_StatusLegacy h p) = None"
| "cacheKeyOf (Call_StatusBedrock h p) = None"

fun isSet :: "call \<Rightarrow> bool" where
  "isSet (Call_Set k v d) = True"
| "isSet c = False"

definition newCalls :: "'s world \<Rightarrow> 's world \<Rightarrow> call list" where
  \<comment> \<open>the calls an operation added, going from \<open>w\<close> to \<open>w'\<close>\<close>
  "newCalls w w' = drop (length (calls w)) (calls w')"

definition value_d :: "string \<Rightarrow> nat" where
  \<comment> \<open>the number a string of decimal digits denotes\<close>
  "value_d s = foldl (\<lambda>a c. 10 * a + (of_char c - 48)) 0 s"

text \<open>
  A store for the examples: an association list, newest entry first, that never fails.
  The queries of \<open>exampleEnv\<close> all fail; an example changes the fields it needs.
\<close>

type_synonym kv = "(string \<times> bytes \<times> Duration) list"

definition exampleMarshal :: "response \<Rightarrow> error + bytes" where
  "exampleMarshal r =
     (case r of
        Base b \<Rightarrow> Inr (Some ''{offline}'')
      | Java j \<Rightarrow> Inr (Some ''{java}'')
      | Bedrock b \<Rightarrow> Inr (Some ''{bedrock}''))"

definition exampleEnv :: "kv env" where
  "exampleEnv =
     \<lparr>r_GetCacheString =
        (\<lambda>s key. case map_of s key of
                    None \<Rightarrow> (False, [], 0, None)
                  | Some (v, d) \<Rightarrow> (True, elems v, d, None)),
      r_GetCacheBytes =
        (\<lambda>s key. case map_of s key of
                    None \<Rightarrow> (False, None, 0, None)
                  | Some (v, d) \<Rightarrow> (True, v, d, None)),
      r_Set = (\<lambda>s key v d. (None, (key, v, d) # s)),
      mcutil_Status = (\<lambda>h p. Inl (Error ''connection refused'')),
      mcutil_StatusLegacy = (\<lambda>h p. Inl (Error ''connection refused'')),
      mcutil_StatusBedrock = (\<lambda>h p. Inl (Error ''connection refused'')),
      IsBlockedAddress = (\<lambda>h. h = ''blocked.example''),
      json_Marshal = exampleMarshal,
      base64_DecodeString =
        (\<lambda>s. if s = ''QQ=='' then Inr (Some ''A'') else Inl (Error ''illegal base64 data'')),
      config_JavaCacheDuration = 60,
      config_BedrockCacheDuration = 90,
      config_IconCacheDuration = 3600,
      defaultIconBytes = Some ''default.png''\<rparr>"

definition emptyWorld :: "kv world" where
  "emptyWorld = \<lparr>store = [], calls = []\<rparr>"

definition exampleMOTD :: mc_MOTD where
  "exampleMOTD = \<lparr>mcm_Raw = ''hi'', mcm_Clean = ''hi'', mcm_HTML = ''<span>hi</span>''\<rparr>"

definition exampleVersion :: mc_Version where
  "exampleVersion =
     \<lparr>mcv_NameRaw = ''1.6.4'', mcv_NameClean = ''1.6.4'', mcv_NameHTML = ''<span>1.6.4</span>'',
      mcv_Protocol = 78\<rparr>"

definition exampleJava :: "string option \<Rightarrow> mc_JavaStatus" where
  \<comment> \<open>a modern status with the given favicon, five of twenty players, no sample, no mods\<close>
  "exampleJava favicon =
     \<lparr>mcj_Version = exampleVersion,
      mcj_Players = \<lparr>mcp_Online = 5, mcp_Max = 20, mcp_Sample = None\<rparr>,
      mcj_MOTD = exampleMOTD,
      mcj_Favicon = favicon,
      mcj_ModInfo = None\<rparr>"

definition exampleLegacy :: mc_LegacyStatus where
  "exampleLegacy =
     \<lparr>mcl_Version = Some exampleVersion,
      mcl_Players = \<lparr>mclp_Online = 3, mclp_Max = 10\<rparr>,
      mcl_MOTD = exampleMOTD\<rparr>"

definition exampleBedrock :: mc_BedrockStatus where
  \<comment> \<open>only the protocol and the maximum are reported\<close>
  "exampleBedrock =
     \<lparr>mcb_Version = None, mcb_ProtocolVersion = Some 594,
      mcb_OnlinePlayers = None, mcb_MaxPlayers = Some 30,
      mcb_MOTD = None, mcb_Gamemode = None, mcb_ServerID = None, mcb_Edition = Some ''MCPE''\<rparr>"

definition envModern :: "kv env" where
  \<comment> \<open>the modern query answers, with no favicon\<close>
  "envModern = exampleEnv\<lparr>mcutil_Status := \<lambda>h p. Inr (exampleJava None)\<rparr>"

definition envLegacy :: "kv env" where
  \<comment> \<open>only the legacy query answers\<close>
  "envLegacy = exampleEnv\<lparr>mcutil_StatusLegacy := \<lambda>h p. Inr exampleLegacy\<rparr>"

definition envBedrock :: "kv env" where
  "envBedrock = exampleEnv\<lparr>mcutil_StatusBedrock := \<lambda>h p. Inr exampleBedrock\<rparr>"

definition envNoMarshal :: "kv env" where
  \<comment> \<open>\<open>json.Marshal\<close> fails\<close>
  "envNoMarshal = exampleEnv\<lparr>json_Marshal := \<lambda>r. Inl (Error ''json: unsupported value'')\<rparr>"

definition envNoSet :: "kv env" where
  \<comment> \<open>the store refuses every write\<close>
  "envNoSet = exampleEnv\<lparr>r_Set := \<lambda>s key v d. (Some (Error ''READONLY''), s)\<rparr>"

definition envReadError :: "kv env" where
  \<comment> \<open>every read of the store reports no entry together with an error\<close>
  "envReadError =
     exampleEnv
       \<lparr>r_GetCacheString := \<lambda>s key. (False, [], 0, Some (Error ''i/o timeout'')),
        r_GetCacheBytes := \<lambda>s key. (False, None, 0, Some (Error ''i/o timeout''))\<rparr>"

definition envFavicon :: "string \<Rightarrow> kv env" where
  \<comment> \<open>the modern query answers with the given favicon\<close>
  "envFavicon favicon = exampleEnv\<lparr>mcutil_Status := \<lambda>h p. Inr (exampleJava (Some favicon))\<rparr>"

definition warmWorld :: "kv world" where
  \<comment> \<open>a store that holds a status and an icon for \<open>h:25565\<close>\<close>
  "warmWorld =
     \<lparr>store = [(''java:h-25565'', Some ''{cached}'', 42),
               (''bedrock:h-25565'', Some ''{cached}'', 43),
               (''icon:h-25565'', Some ''cached.png'', 44)],
      calls = []\<rparr>"

definition warmStatusWorld :: "kv world" where
  \<comment> \<open>a store that holds a status for \<open>h:25565\<close> and no icon\<close>
  "warmStatusWorld = \<lparr>store = [(''java:h-25565'', Some ''{cached}'', 42)], calls = []\<rparr>"

section \<open>Facts about the parts\<close>

lemma bedrockResponse_Version:
  "bedrock_Version (bedrockResponse env host port status) =
     (if mcb_Version status = None \<and> mcb_ProtocolVersion status = None then None
      else Some \<lparr>bv_Name = mcb_Version status, bv_Protocol = mcb_ProtocolVersion status\<rparr>)"
  by (auto simp: bedrockResponse_def setMOTD_def setPlayersMax_def setPlayersOnline_def
      setVersionProtocol_def setVersionName_def newBedrockVersion_def Let_def
      split: option.splits)

lemma bedrockResponse_Players:
  "bedrock_Players (bedrockResponse env host port status) =
     (if mcb_OnlinePlayers status = None \<and> mcb_MaxPlayers status = None then None
      else Some \<lparr>bp_Online = mcb_OnlinePlayers status, bp_Max = mcb_MaxPlayers status\<rparr>)"
  by (auto simp: bedrockResponse_def setMOTD_def setPlayersMax_def setPlayersOnline_def
      setVersionProtocol_def setVersionName_def newBedrockPlayers_def Let_def
      split: option.splits)

lemma bedrockResponse_base:
  "bedrock_StatusResponse (bedrockResponse env host port status) =
     \<lparr>Online = True, Host = host, Port = port, EULABlocked = IsBlockedAddress env host\<rparr>"
  by (auto simp: bedrockResponse_def setMOTD_def setPlayersMax_def setPlayersOnline_def
      setVersionProtocol_def setVersionName_def Let_def split: option.splits)

lemma FetchBedrockStatus_Inr:
  "mcutil_StatusBedrock env host port = Inr status \<Longrightarrow>
   FetchBedrockStatus env host port w =
     (Bedrock (bedrockResponse env host port status), logged (Call_StatusBedrock host port) w)"
  by (simp add: FetchBedrockStatus_def do_StatusBedrock_def)

lemma FetchBedrockStatus_Inl:
  "mcutil_StatusBedrock env host port = Inl e \<Longrightarrow>
   FetchBedrockStatus env host port w =
     (Base \<lparr>Online = False, Host = host, Port = port, EULABlocked = IsBlockedAddress env host\<rparr>,
      logged (Call_StatusBedrock host port) w)"
  by (simp add: FetchBedrockStatus_def do_StatusBedrock_def)

lemma FetchJavaStatus_modern:
  "mcutil_Status env host port = Inr status \<Longrightarrow>
   FetchJavaStatus env host port w =
     (Java (modernResponse env host port status), logged (Call_Status host port) w)"
  by (simp add: FetchJavaStatus_def do_Status_def)

lemma FetchJavaStatus_legacy:
  "mcutil_Status env host port = Inl e \<Longrightarrow> mcutil_StatusLegacy env host port = Inr sl \<Longrightarrow>
   FetchJavaStatus env host port w =
     (Java (legacyResponse env host port sl),
      logged (Call_StatusLegacy host port) (logged (Call_Status host port) w))"
  by (simp add: FetchJavaStatus_def do_Status_def do_StatusLegacy_def)

lemma FetchJavaStatus_offline:
  "mcutil_Status env host port = Inl e \<Longrightarrow> mcutil_StatusLegacy env host port = Inl e' \<Longrightarrow>
   FetchJavaStatus env host port w =
     (Base \<lparr>Online = False, Host = host, Port = port, EULABlocked = IsBlockedAddress env host\<rparr>,
      logged (Call_StatusLegacy host port) (logged (Call_Status host port) w))"
  by (simp add: FetchJavaStatus_def do_Status_def do_StatusLegacy_def)

lemma FetchJavaStatus_fst:
  "fst (FetchJavaStatus env host port w) = fst (FetchJavaStatus env host port w')"
  by (simp add: FetchJavaStatus_def do_Status_def do_StatusLegacy_def split: sum.splits)

lemma FetchBedrockStatus_fst:
  "fst (FetchBedrockStatus env host port w) = fst (FetchBedrockStatus env host port w')"
  by (simp add: FetchBedrockStatus_def do_StatusBedrock_def split: sum.splits)

lemma FetchJavaStatus_store:
  "store (snd (FetchJavaStatus env host port w)) = store w"
  by (simp add: FetchJavaStatus_def do_Status_def do_StatusLegacy_def logged_def split: sum.splits)

lemma FetchBedrockStatus_store:
  "store (snd (FetchBedrockStatus env host port w)) = store w"
  by (simp add: FetchBedrockStatus_def do_StatusBedrock_def logged_def split: sum.splits)

lemma legacyResponse_fields:
  "java_Icon (legacyResponse env host port sl) = None"
  "java_Mods (legacyResponse env host port sl) = Some []"
  "jp_List (java_Players (legacyResponse env host port sl)) = Some []"
  "java_Version (legacyResponse env host port sl) = map_option copyVersion (mcl_Version sl)"
  "java_StatusResponse (legacyResponse env host port sl) =
     \<lparr>Online = True, Host = host, Port = port, EULABlocked = IsBlockedAddress env host\<rparr>"
  by (simp_all add: legacyResponse_def make0_def Let_def split: option.splits)

lemma modernResponse_base:
  "java_StatusResponse (modernResponse env host port status) =
     \<lparr>Online = True, Host = host, Port = port, EULABlocked = IsBlockedAddress env host\<rparr>"
  by (simp add: modernResponse_def Let_def)

section \<open>Facts about the cached operations\<close>

lemma GetJavaStatus_hit:
  assumes "r_GetCacheString env (store w) (Sprintf_s_d ''java:'' host port) = (True, v, t, e)"
  shows "GetJavaStatus env host port w =
    ((v, Some t, e), w\<lparr>calls := calls w @ [Call_GetCacheString (Sprintf_s_d ''java:'' host port)]\<rparr>)"
  using assms by (simp add: GetJavaStatus_def do_GetCacheString_def logged_def)

lemma GetBedrockStatus_hit:
  assumes "r_GetCacheString env (store w) (Sprintf_s_d ''bedrock:'' host port) = (True, v, t, e)"
  shows "GetBedrockStatus env host port w =
    ((v, Some t, e), w\<lparr>calls := calls w @ [Call_GetCacheString (Sprintf_s_d ''bedrock:'' host port)]\<rparr>)"
  using assms by (simp add: GetBedrockStatus_def do_GetCacheString_def logged_def)

lemma GetServerIcon_hit:
  assumes "r_GetCacheBytes env (store w) (Sprintf_s_d ''icon:'' host port) = (True, v, t, e)"
  shows "GetServerIcon env host port w =
    ((v, Some t, e), w\<lparr>calls := calls w @ [Call_GetCacheBytes (Sprintf_s_d ''icon:'' host port)]\<rparr>)"
  using assms by (simp add: GetServerIcon_def do_GetCacheBytes_def logged_def)

lemma GetJavaStatus_marshal_error:
  assumes "r_GetCacheString env (store w) (Sprintf_s_d ''java:'' host port) = (False, v, t, e0)"
    and "json_Marshal env (fst (FetchJavaStatus env host port w)) = Inl e"
  shows "GetJavaStatus env host port w =
    (([], None, Some e),
     snd (FetchJavaStatus env host port
            (logged (Call_GetCacheString (Sprintf_s_d ''java:'' host port)) w)))"
proof -
  let ?w1 = "logged (Call_GetCacheString (Sprintf_s_d ''java:'' host port)) w"
  have "json_Marshal env (fst (FetchJavaStatus env host port ?w1)) = Inl e"
    using assms(2) FetchJavaStatus_fst [of env host port ?w1 w] by simp
  then show ?thesis
    using assms(1)
    by (simp add: GetJavaStatus_def Let_def do_GetCacheString_def split_beta)
qed

lemma GetJavaStatus_set:
  assumes "r_GetCacheString env (store w) (Sprintf_s_d ''java:'' host port) = (False, v, t, e0)"
    and "json_Marshal env (fst (FetchJavaStatus env host port w)) = Inr b"
    and "r_Set env (store w) (Sprintf_s_d ''java:'' host port) b (config_JavaCacheDuration env)
           = (err, s')"
  shows "GetJavaStatus env host port w =
    ((case err of Some e \<Rightarrow> ([], None, Some e) | None \<Rightarrow> (elems b, None, None)),
     (logged (Call_Set (Sprintf_s_d ''java:'' host port) b (config_JavaCacheDuration env))
        (snd (FetchJavaStatus env host port
                (logged (Call_GetCacheString (Sprintf_s_d ''java:'' host port)) w))))
       \<lparr>store := s'\<rparr>)"
proof -
  let ?w1 = "logged (Call_GetCacheString (Sprintf_s_d ''java:'' host port)) w"
  have m: "json_Marshal env (fst (FetchJavaStatus env host port ?w1)) = Inr b"
    using assms(2) FetchJavaStatus_fst [of env host port ?w1 w] by simp
  have s: "store (snd (FetchJavaStatus env host port ?w1)) = store w"
    by (simp add: FetchJavaStatus_store logged_def)
  show ?thesis
    using assms(1,3) m s
    by (simp add: GetJavaStatus_def Let_def do_GetCacheString_def do_Set_def split_beta
        split: option.splits)
qed

lemma GetBedrockStatus_marshal_error:
  assumes "r_GetCacheString env (store w) (Sprintf_s_d ''bedrock:'' host port) = (False, v, t, e0)"
    and "json_Marshal env (fst (FetchBedrockStatus env host port w)) = Inl e"
  shows "GetBedrockStatus env host port w =
    (([], None, Some e),
     snd (FetchBedrockStatus env host port
            (logged (Call_GetCacheString (Sprintf_s_d ''bedrock:'' host port)) w)))"
proof -
  let ?w1 = "logged (Call_GetCacheString (Sprintf_s_d ''bedrock:'' host port)) w"
  have "json_Marshal env (fst (FetchBedrockStatus env host port ?w1)) = Inl e"
    using assms(2) FetchBedrockStatus_fst [of env host port ?w1 w] by simp
  then show ?thesis
    using assms(1)
    by (simp add: GetBedrockStatus_def Let_def do_GetCacheString_def split_beta)
qed

lemma GetBedrockStatus_set:
  assumes "r_GetCacheString env (store w) (Sprintf_s_d ''bedrock:'' host port) = (False, v, t, e0)"
    and "json_Marshal env (fst (FetchBedrockStatus env host port w)) = Inr b"
    and "r_Set env (store w) (Sprintf_s_d ''bedrock:'' host port) b
           (config_BedrockCacheDuration env) = (err, s')"
  shows "GetBedrockStatus env host port w =
    ((case err of Some e \<Rightarrow> ([], None, Some e) | None \<Rightarrow> (elems b, None, None)),
     (logged (Call_Set (Sprintf_s_d ''bedrock:'' host port) b (config_BedrockCacheDuration env))
        (snd (FetchBedrockStatus env host port
                (logged (Call_GetCacheString (Sprintf_s_d ''bedrock:'' host port)) w))))
       \<lparr>store := s'\<rparr>)"
proof -
  let ?w1 = "logged (Call_GetCacheString (Sprintf_s_d ''bedrock:'' host port)) w"
  have m: "json_Marshal env (fst (FetchBedrockStatus env host port ?w1)) = Inr b"
    using assms(2) FetchBedrockStatus_fst [of env host port ?w1 w] by simp
  have s: "store (snd (FetchBedrockStatus env host port ?w1)) = store w"
    by (simp add: FetchBedrockStatus_store logged_def)
  show ?thesis
    using assms(1,3) m s
    by (simp add: GetBedrockStatus_def Let_def do_GetCacheString_def do_Set_def split_beta
        split: option.splits)
qed

lemma setIcon_eq:
  assumes "r_Set env (store w) key icon (config_IconCacheDuration env) = (err, s')"
  shows "setIcon env key icon w =
    ((case err of Some e \<Rightarrow> (None, None, Some e) | None \<Rightarrow> (icon, None, None)),
     (logged (Call_Set key icon (config_IconCacheDuration env)) w)\<lparr>store := s'\<rparr>)"
  using assms by (simp add: setIcon_def do_Set_def split: option.splits)

lemma TrimPrefix_drop: "HasPrefix s p \<Longrightarrow> TrimPrefix s p = drop (length p) s"
  by (simp add: TrimPrefix_def)

lemma GetJavaStatus_miss_ttl:
  assumes "r_GetCacheString env (store w) (Sprintf_s_d ''java:'' host port) = (False, v, t, e0)"
  shows "resTTL (fst (GetJavaStatus env host port w)) = None"
  using assms
  by (simp add: GetJavaStatus_def Let_def do_GetCacheString_def resTTL_def split_beta
      split: sum.splits option.splits)

lemma GetBedrockStatus_miss_ttl:
  assumes "r_GetCacheString env (store w) (Sprintf_s_d ''bedrock:'' host port) = (False, v, t, e0)"
  shows "resTTL (fst (GetBedrockStatus env host port w)) = None"
  using assms
  by (simp add: GetBedrockStatus_def Let_def do_GetCacheString_def resTTL_def split_beta
      split: sum.splits option.splits)

lemma setIcon_ttl: "resTTL (fst (setIcon env key icon w)) = None"
  by (simp add: setIcon_def resTTL_def split_beta split: option.splits)

lemma GetServerIcon_miss_ttl:
  assumes "r_GetCacheBytes env (store w) (Sprintf_s_d ''icon:'' host port) = (False, v, t, e0)"
  shows "resTTL (fst (GetServerIcon env host port w)) = None"
  using assms
  by (simp add: GetServerIcon_def Let_def do_GetCacheBytes_def do_Status_def setIcon_ttl
      split_beta split: sum.splits option.splits)
    (simp add: resTTL_def)

lemma setIcon_stored:
  assumes "resErr (fst (setIcon env key icon w)) = None"
  shows "resValue (fst (setIcon env key icon w)) = icon
    \<and> last (calls (snd (setIcon env key icon w))) = Call_Set key icon (config_IconCacheDuration env)"
  using assms
  by (simp add: setIcon_def do_Set_def logged_def resErr_def resValue_def split_beta
      split: option.splits)

lemma GetServerIcon_miss_stored:
  assumes "r_GetCacheBytes env (store w) (Sprintf_s_d ''icon:'' host port) = (False, v, t, e0)"
    and "resErr (fst (GetServerIcon env host port w)) = None"
  shows "last (calls (snd (GetServerIcon env host port w))) =
    Call_Set (Sprintf_s_d ''icon:'' host port) (resValue (fst (GetServerIcon env host port w)))
      (config_IconCacheDuration env)"
  using assms
  by (auto simp: GetServerIcon_def Let_def do_GetCacheBytes_def do_Status_def setIcon_stored
      split_beta resErr_def split: sum.splits option.splits if_splits)

section \<open>Facts about the cache keys\<close>

lemma of_char_digit: "d < 10 \<Longrightarrow> of_char (digit d) = 48 + d"
proof -
  assume "d < 10"
  then have "d = 0 \<or> d = 1 \<or> d = 2 \<or> d = 3 \<or> d = 4 \<or> d = 5 \<or> d = 6 \<or> d = 7 \<or> d = 8 \<or> d = 9"
    by arith
  then show ?thesis
    by (elim disjE) (simp_all add: digit_def)
qed

lemma digit_in_digits: "d < 10 \<Longrightarrow> digit d \<in> set ''0123456789''"
  unfolding digit_def by (rule nth_mem) simp

lemma value_d_snoc: "value_d (s @ [c]) = 10 * value_d s + (of_char c - 48)"
  by (simp add: value_d_def)

lemma value_d_fmt_d: "value_d (fmt_d n) = n"
proof (induction n rule: fmt_d.induct)
  case (1 n)
  show ?case
  proof (cases "n < 10")
    case True
    then show ?thesis
      by (simp add: fmt_d.simps [of n] value_d_def of_char_digit)
  next
    case False
    then have "value_d (fmt_d (n div 10)) = n div 10"
      using "1.IH" by simp
    then show ?thesis
      using False by (simp add: fmt_d.simps [of n] value_d_snoc of_char_digit)
  qed
qed

lemma fmt_d_digits: "set (fmt_d n) \<subseteq> set ''0123456789''"
proof (induction n rule: fmt_d.induct)
  case (1 n)
  show ?case
  proof (cases "n < 10")
    case True
    then show ?thesis
      using digit_in_digits [of n] by (simp add: fmt_d.simps [of n])
  next
    case False
    then have "set (fmt_d (n div 10)) \<subseteq> set ''0123456789''"
      using "1.IH" by simp
    moreover have "digit (n mod 10) \<in> set ''0123456789''"
      by (rule digit_in_digits) simp
    ultimately show ?thesis
      using False by (simp add: fmt_d.simps [of n])
  qed
qed

lemma newCalls_append: "calls w' = calls w @ cs \<Longrightarrow> newCalls w w' = cs"
  by (simp add: newCalls_def)

lemma keys_snoc:
  "List.map_filter cacheKeyOf (cs @ [c]) =
     List.map_filter cacheKeyOf cs @ (case cacheKeyOf c of None \<Rightarrow> [] | Some k \<Rightarrow> [k])"
  by (simp add: List.map_filter_def split: option.splits)

lemma logged_calls: "calls (logged c w) = calls w @ [c]"
  by (simp add: logged_def)

lemma FetchJavaStatus_calls:
  "\<exists>qs. calls (snd (FetchJavaStatus env host port w)) = calls w @ qs
     \<and> List.map_filter cacheKeyOf qs = []"
proof (cases "mcutil_Status env host port")
  case (Inr status)
  then have "calls (snd (FetchJavaStatus env host port w)) = calls w @ [Call_Status host port]"
    by (simp add: FetchJavaStatus_modern logged_calls)
  then show ?thesis
    by (simp add: List.map_filter_simps)
next
  case modern: (Inl e)
  have "calls (snd (FetchJavaStatus env host port w)) =
      calls w @ [Call_Status host port, Call_StatusLegacy host port]"
  proof (cases "mcutil_StatusLegacy env host port")
    case (Inr sl)
    with modern show ?thesis
      by (simp add: FetchJavaStatus_legacy logged_calls)
  next
    case (Inl e')
    with modern show ?thesis
      by (simp add: FetchJavaStatus_offline logged_calls)
  qed
  then show ?thesis
    by (simp add: List.map_filter_simps)
qed

lemma FetchBedrockStatus_calls:
  "\<exists>qs. calls (snd (FetchBedrockStatus env host port w)) = calls w @ qs
     \<and> List.map_filter cacheKeyOf qs = []"
proof -
  have "calls (snd (FetchBedrockStatus env host port w)) = calls w @ [Call_StatusBedrock host port]"
    by (cases "mcutil_StatusBedrock env host port")
      (simp_all add: FetchBedrockStatus_Inl FetchBedrockStatus_Inr logged_calls)
  then show ?thesis
    by (simp add: List.map_filter_simps)
qed

lemma GetJavaStatus_keys:
  "set (List.map_filter cacheKeyOf (newCalls w (snd (GetJavaStatus env host port w))))
     = {Sprintf_s_d ''java:'' host port}"
proof -
  let ?k = "Sprintf_s_d ''java:'' host port"
  let ?w1 = "logged (Call_GetCacheString ?k) w"
  let ?G = "GetJavaStatus env host port w"
  obtain ex v t e0 where read: "r_GetCacheString env (store w) ?k = (ex, v, t, e0)"
    by (cases "r_GetCacheString env (store w) ?k") auto
  obtain qs where qs: "calls (snd (FetchJavaStatus env host port ?w1)) = calls ?w1 @ qs"
    and noKeys: "List.map_filter cacheKeyOf qs = []"
    using FetchJavaStatus_calls by blast
  have "\<exists>cs. calls (snd ?G) = calls w @ cs \<and> set (List.map_filter cacheKeyOf cs) = {?k}"
  proof (cases ex)
    case True
    with read have "calls (snd ?G) = calls w @ [Call_GetCacheString ?k]"
      by (simp add: GetJavaStatus_hit)
    then show ?thesis
      by (simp add: List.map_filter_simps)
  next
    case False
    with read have miss: "r_GetCacheString env (store w) ?k = (False, v, t, e0)"
      by simp
    show ?thesis
    proof (cases "json_Marshal env (fst (FetchJavaStatus env host port w))")
      case (Inl e)
      have "calls (snd ?G) = calls w @ (Call_GetCacheString ?k # qs)"
        using GetJavaStatus_marshal_error [OF miss Inl] qs by (simp add: logged_calls)
      moreover have "set (List.map_filter cacheKeyOf (Call_GetCacheString ?k # qs)) = {?k}"
        using noKeys by (simp add: List.map_filter_simps)
      ultimately show ?thesis
        by blast
    next
      case (Inr b)
      obtain r s' where set: "r_Set env (store w) ?k b (config_JavaCacheDuration env) = (r, s')"
        by (cases "r_Set env (store w) ?k b (config_JavaCacheDuration env)")
      have "calls (snd ?G) =
          calls w @ ((Call_GetCacheString ?k # qs) @ [Call_Set ?k b (config_JavaCacheDuration env)])"
        using GetJavaStatus_set [OF miss Inr set] qs by (simp add: logged_calls)
      moreover have "set (List.map_filter cacheKeyOf
          ((Call_GetCacheString ?k # qs) @ [Call_Set ?k b (config_JavaCacheDuration env)])) = {?k}"
        using noKeys by (simp only: keys_snoc) (simp add: List.map_filter_simps)
      ultimately show ?thesis
        by blast
    qed
  qed
  then show ?thesis
    using newCalls_append by metis
qed

lemma GetBedrockStatus_keys:
  "set (List.map_filter cacheKeyOf (newCalls w (snd (GetBedrockStatus env host port w))))
     = {Sprintf_s_d ''bedrock:'' host port}"
proof -
  let ?k = "Sprintf_s_d ''bedrock:'' host port"
  let ?w1 = "logged (Call_GetCacheString ?k) w"
  let ?G = "GetBedrockStatus env host port w"
  obtain ex v t e0 where read: "r_GetCacheString env (store w) ?k = (ex, v, t, e0)"
    by (cases "r_GetCacheString env (store w) ?k") auto
  obtain qs where qs: "calls (snd (FetchBedrockStatus env host port ?w1)) = calls ?w1 @ qs"
    and noKeys: "List.map_filter cacheKeyOf qs = []"
    using FetchBedrockStatus_calls by blast
  have "\<exists>cs. calls (snd ?G) = calls w @ cs \<and> set (List.map_filter cacheKeyOf cs) = {?k}"
  proof (cases ex)
    case True
    with read have "calls (snd ?G) = calls w @ [Call_GetCacheString ?k]"
      by (simp add: GetBedrockStatus_hit)
    then show ?thesis
      by (simp add: List.map_filter_simps)
  next
    case False
    with read have miss: "r_GetCacheString env (store w) ?k = (False, v, t, e0)"
      by simp
    show ?thesis
    proof (cases "json_Marshal env (fst (FetchBedrockStatus env host port w))")
      case (Inl e)
      have "calls (snd ?G) = calls w @ (Call_GetCacheString ?k # qs)"
        using GetBedrockStatus_marshal_error [OF miss Inl] qs by (simp add: logged_calls)
      moreover have "set (List.map_filter cacheKeyOf (Call_GetCacheString ?k # qs)) = {?k}"
        using noKeys by (simp add: List.map_filter_simps)
      ultimately show ?thesis
        by blast
    next
      case (Inr b)
      obtain r s' where set: "r_Set env (store w) ?k b (config_BedrockCacheDuration env) = (r, s')"
        by (cases "r_Set env (store w) ?k b (config_BedrockCacheDuration env)")
      have "calls (snd ?G) =
          calls w @ ((Call_GetCacheString ?k # qs) @ [Call_Set ?k b (config_BedrockCacheDuration env)])"
        using GetBedrockStatus_set [OF miss Inr set] qs by (simp add: logged_calls)
      moreover have "set (List.map_filter cacheKeyOf
          ((Call_GetCacheString ?k # qs) @ [Call_Set ?k b (config_BedrockCacheDuration env)])) = {?k}"
        using noKeys by (simp only: keys_snoc) (simp add: List.map_filter_simps)
      ultimately show ?thesis
        by blast
    qed
  qed
  then show ?thesis
    using newCalls_append by metis
qed

section \<open>Facts about the icon\<close>

lemma HasPrefix_iff: "HasPrefix s p = (\<exists>r. s = p @ r)"
proof
  assume "HasPrefix s p"
  then have "s = p @ drop (length p) s"
    by (metis HasPrefix_def append_take_drop_id)
  then show "\<exists>r. s = p @ r" ..
next
  assume "\<exists>r. s = p @ r"
  then show "HasPrefix s p"
    by (auto simp: HasPrefix_def)
qed

lemma TrimPrefix_append: "TrimPrefix (p @ r) p = r"
  by (simp add: TrimPrefix_def HasPrefix_def)

lemma setIcon_calls:
  "calls (snd (setIcon env key icon w)) = calls w @ [Call_Set key icon (config_IconCacheDuration env)]"
  by (simp add: setIcon_def do_Set_def logged_def split_beta split: option.splits)

lemma GetServerIcon_query_failed:
  assumes "r_GetCacheBytes env (store w) (Sprintf_s_d ''icon:'' host port) = (False, iv, t, e0)"
    and "mcutil_Status env host port = Inl e"
  shows "GetServerIcon env host port w =
    setIcon env (Sprintf_s_d ''icon:'' host port) (defaultIconBytes env)
      (logged (Call_Status host port)
         (logged (Call_GetCacheBytes (Sprintf_s_d ''icon:'' host port)) w))"
  using assms by (simp add: GetServerIcon_def Let_def do_GetCacheBytes_def do_Status_def)

lemma GetServerIcon_no_favicon:
  assumes "r_GetCacheBytes env (store w) (Sprintf_s_d ''icon:'' host port) = (False, iv, t, e0)"
    and "mcutil_Status env host port = Inr status"
    and "mcj_Favicon status = None"
  shows "GetServerIcon env host port w =
    setIcon env (Sprintf_s_d ''icon:'' host port) (defaultIconBytes env)
      (logged (Call_Status host port)
         (logged (Call_GetCacheBytes (Sprintf_s_d ''icon:'' host port)) w))"
  using assms by (simp add: GetServerIcon_def Let_def do_GetCacheBytes_def do_Status_def)

lemma GetServerIcon_other_prefix:
  assumes "r_GetCacheBytes env (store w) (Sprintf_s_d ''icon:'' host port) = (False, iv, t, e0)"
    and "mcutil_Status env host port = Inr status"
    and "mcj_Favicon status = Some favicon"
    and "\<not> HasPrefix favicon pngPrefix"
  shows "GetServerIcon env host port w =
    setIcon env (Sprintf_s_d ''icon:'' host port) (defaultIconBytes env)
      (logged (Call_Status host port)
         (logged (Call_GetCacheBytes (Sprintf_s_d ''icon:'' host port)) w))"
  using assms by (simp add: GetServerIcon_def Let_def do_GetCacheBytes_def do_Status_def)

lemma GetServerIcon_decode_error:
  assumes "r_GetCacheBytes env (store w) (Sprintf_s_d ''icon:'' host port) = (False, iv, t, e0)"
    and "mcutil_Status env host port = Inr status"
    and "mcj_Favicon status = Some favicon"
    and "HasPrefix favicon pngPrefix"
    and "base64_DecodeString env (TrimPrefix favicon pngPrefix) = Inl e"
  shows "GetServerIcon env host port w =
    ((None, None, Some e),
     logged (Call_Status host port)
       (logged (Call_GetCacheBytes (Sprintf_s_d ''icon:'' host port)) w))"
  using assms by (simp add: GetServerIcon_def Let_def do_GetCacheBytes_def do_Status_def)

lemma GetServerIcon_decoded:
  assumes "r_GetCacheBytes env (store w) (Sprintf_s_d ''icon:'' host port) = (False, iv, t, e0)"
    and "mcutil_Status env host port = Inr status"
    and "mcj_Favicon status = Some favicon"
    and "HasPrefix favicon pngPrefix"
    and "base64_DecodeString env (TrimPrefix favicon pngPrefix) = Inr data"
  shows "GetServerIcon env host port w =
    setIcon env (Sprintf_s_d ''icon:'' host port) data
      (logged (Call_Status host port)
         (logged (Call_GetCacheBytes (Sprintf_s_d ''icon:'' host port)) w))"
  using assms by (simp add: GetServerIcon_def Let_def do_GetCacheBytes_def do_Status_def)

lemma GetServerIcon_miss_cases:
  assumes miss: "r_GetCacheBytes env (store w) (Sprintf_s_d ''icon:'' host port) = (False, iv, t, e0)"
  shows "(\<exists>e. GetServerIcon env host port w =
            ((None, None, Some e),
             logged (Call_Status host port)
               (logged (Call_GetCacheBytes (Sprintf_s_d ''icon:'' host port)) w)))
    \<or> (\<exists>icon. GetServerIcon env host port w =
            setIcon env (Sprintf_s_d ''icon:'' host port) icon
              (logged (Call_Status host port)
                 (logged (Call_GetCacheBytes (Sprintf_s_d ''icon:'' host port)) w)))"
proof (cases "mcutil_Status env host port")
  case (Inl e)
  then show ?thesis
    using GetServerIcon_query_failed [OF miss] by blast
next
  case st: (Inr status)
  show ?thesis
  proof (cases "mcj_Favicon status")
    case None
    then show ?thesis
      using GetServerIcon_no_favicon [OF miss st] by blast
  next
    case (Some favicon)
    show ?thesis
    proof (cases "HasPrefix favicon pngPrefix")
      case False
      then show ?thesis
        using GetServerIcon_other_prefix [OF miss st Some] by blast
    next
      case True
      show ?thesis
      proof (cases "base64_DecodeString env (TrimPrefix favicon pngPrefix)")
        case (Inl e)
        then show ?thesis
          using GetServerIcon_decode_error [OF miss st Some True] by blast
      next
        case (Inr data)
        then show ?thesis
          using GetServerIcon_decoded [OF miss st Some True] by blast
      qed
    qed
  qed
qed

lemma GetServerIcon_keys:
  "set (List.map_filter cacheKeyOf (newCalls w (snd (GetServerIcon env host port w))))
     = {Sprintf_s_d ''icon:'' host port}"
proof -
  let ?k = "Sprintf_s_d ''icon:'' host port"
  let ?G = "GetServerIcon env host port w"
  obtain ex iv t e0 where read: "r_GetCacheBytes env (store w) ?k = (ex, iv, t, e0)"
    by (cases "r_GetCacheBytes env (store w) ?k") auto
  have "\<exists>cs. calls (snd ?G) = calls w @ cs \<and> set (List.map_filter cacheKeyOf cs) = {?k}"
  proof (cases ex)
    case True
    with read have "calls (snd ?G) = calls w @ [Call_GetCacheBytes ?k]"
      by (simp add: GetServerIcon_hit)
    then show ?thesis
      by (simp add: List.map_filter_simps)
  next
    case False
    with read have miss: "r_GetCacheBytes env (store w) ?k = (False, iv, t, e0)"
      by simp
    from GetServerIcon_miss_cases [OF miss] show ?thesis
    proof (elim disjE exE)
      fix e
      assume "?G = ((None, None, Some e),
          logged (Call_Status host port) (logged (Call_GetCacheBytes ?k) w))"
      then have "calls (snd ?G) = calls w @ [Call_GetCacheBytes ?k, Call_Status host port]"
        by (simp add: logged_calls)
      then show ?thesis
        by (simp add: List.map_filter_simps)
    next
      fix icon
      assume "?G = setIcon env ?k icon
          (logged (Call_Status host port) (logged (Call_GetCacheBytes ?k) w))"
      then have "calls (snd ?G) = calls w @ [Call_GetCacheBytes ?k, Call_Status host port,
          Call_Set ?k icon (config_IconCacheDuration env)]"
        by (simp add: setIcon_calls logged_calls)
      then show ?thesis
        by (simp add: List.map_filter_simps)
    qed
  qed
  then show ?thesis
    using newCalls_append by metis
qed

lemma setIcon_fst:
  "fst (setIcon env key icon (logged c (logged c' w))) =
     (case fst (r_Set env (store w) key icon (config_IconCacheDuration env)) of
        None \<Rightarrow> (icon, None, None)
      | Some err \<Rightarrow> (None, None, Some err))"
  by (simp add: setIcon_def do_Set_def logged_def split_beta split: option.splits)

lemma world_literal: "w\<lparr>calls := cs, store := s\<rparr> = \<lparr>store = s, calls = cs\<rparr>"
  by (cases w) simp

lemma GetJavaStatus_miss:
  assumes "r_GetCacheString env (store w) (Sprintf_s_d ''java:'' host port) = (False, v, t, e0)"
    and "FetchJavaStatus env host port
           (logged (Call_GetCacheString (Sprintf_s_d ''java:'' host port)) w) = (fetched, w2)"
  shows "GetJavaStatus env host port w =
    (case json_Marshal env fetched of
       Inl err \<Rightarrow> (([], None, Some err), w2)
     | Inr b \<Rightarrow>
         (case r_Set env (store w2) (Sprintf_s_d ''java:'' host port) b
                 (config_JavaCacheDuration env) of
            (err, s') \<Rightarrow>
              ((case err of None \<Rightarrow> (elems b, None, None) | Some e \<Rightarrow> ([], None, Some e)),
               (logged (Call_Set (Sprintf_s_d ''java:'' host port) b
                          (config_JavaCacheDuration env)) w2)\<lparr>store := s'\<rparr>)))"
  using assms
  by (simp add: GetJavaStatus_def Let_def do_GetCacheString_def do_Set_def split_beta
      split: sum.splits option.splits)

lemma GetJavaStatus_miss_result:
  assumes miss: "r_GetCacheString env (store w) (Sprintf_s_d ''java:'' host port) = (False, v, t, e0)"
  shows "fst (GetJavaStatus env host port w) =
    (case json_Marshal env (fst (FetchJavaStatus env host port w)) of
       Inl err \<Rightarrow> ([], None, Some err)
     | Inr b \<Rightarrow>
         (case fst (r_Set env (store w) (Sprintf_s_d ''java:'' host port) b
                      (config_JavaCacheDuration env)) of
            None \<Rightarrow> (elems b, None, None)
          | Some err \<Rightarrow> ([], None, Some err)))"
proof (cases "json_Marshal env (fst (FetchJavaStatus env host port w))")
  case (Inl err)
  then show ?thesis
    using GetJavaStatus_marshal_error [OF miss Inl] by simp
next
  case (Inr b)
  obtain r s' where set: "r_Set env (store w) (Sprintf_s_d ''java:'' host port) b
      (config_JavaCacheDuration env) = (r, s')"
    by (cases "r_Set env (store w) (Sprintf_s_d ''java:'' host port) b
      (config_JavaCacheDuration env)")
  show ?thesis
    using GetJavaStatus_set [OF miss Inr set] Inr set
    by (simp split: option.splits)
qed

lemma GetBedrockStatus_miss_result:
  assumes miss: "r_GetCacheString env (store w) (Sprintf_s_d ''bedrock:'' host port) = (False, v, t, e0)"
  shows "fst (GetBedrockStatus env host port w) =
    (case json_Marshal env (fst (FetchBedrockStatus env host port w)) of
       Inl err \<Rightarrow> ([], None, Some err)
     | Inr b \<Rightarrow>
         (case fst (r_Set env (store w) (Sprintf_s_d ''bedrock:'' host port) b
                      (config_BedrockCacheDuration env)) of
            None \<Rightarrow> (elems b, None, None)
          | Some err \<Rightarrow> ([], None, Some err)))"
proof (cases "json_Marshal env (fst (FetchBedrockStatus env host port w))")
  case (Inl err)
  then show ?thesis
    using GetBedrockStatus_marshal_error [OF miss Inl] by simp
next
  case (Inr b)
  obtain r s' where set: "r_Set env (store w) (Sprintf_s_d ''bedrock:'' host port) b
      (config_BedrockCacheDuration env) = (r, s')"
    by (cases "r_Set env (store w) (Sprintf_s_d ''bedrock:'' host port) b
      (config_BedrockCacheDuration env)")
  show ?thesis
    using GetBedrockStatus_set [OF miss Inr set] Inr set
    by (simp split: option.splits)
qed

lemma GetJavaStatus_miss_queried:
  assumes miss: "r_GetCacheString env (store w) (Sprintf_s_d ''java:'' host port) = (False, v, t, e0)"
    and fetch: "\<And>w'. FetchJavaStatus env host port w' = (fetched, w'\<lparr>calls := calls w' @ qs\<rparr>)"
  shows "GetJavaStatus env host port w =
    (case json_Marshal env fetched of
       Inl err \<Rightarrow>
         (([], None, Some err),
          w\<lparr>calls := calls w @ Call_GetCacheString (Sprintf_s_d ''java:'' host port) # qs\<rparr>)
     | Inr b \<Rightarrow>
         (case r_Set env (store w) (Sprintf_s_d ''java:'' host port) b
                 (config_JavaCacheDuration env) of
            (err, s') \<Rightarrow>
              ((case err of None \<Rightarrow> (elems b, None, None) | Some e \<Rightarrow> ([], None, Some e)),
               \<lparr>store = s',
                calls = calls w @ Call_GetCacheString (Sprintf_s_d ''java:'' host port) # qs
                  @ [Call_Set (Sprintf_s_d ''java:'' host port) b
                       (config_JavaCacheDuration env)]\<rparr>)))"
proof -
  let ?k = "Sprintf_s_d ''java:'' host port"
  let ?w1 = "logged (Call_GetCacheString ?k) w"
  have f: "FetchJavaStatus env host port ?w1 = (fetched, ?w1\<lparr>calls := calls ?w1 @ qs\<rparr>)"
    by (rule fetch)
  show ?thesis
    unfolding GetJavaStatus_miss [OF miss f]
    by (cases w) (simp add: logged_def split: sum.splits prod.splits option.splits)
qed

section \<open>The claims\<close>

text \<open>
  C2. For every upstream record of the Bedrock query, the \<open>version\<close> of the response is
  non-nil exactly when the upstream name or the upstream protocol is present; it then holds
  both upstream fields as they are, an absent one staying nil. The same holds, on its own,
  for \<open>players\<close> with the online and the maximum count.
\<close>

theorem bedrock_lazy_containers:
  assumes "mcutil_StatusBedrock env host port = Inr status"
  shows "fst (FetchBedrockStatus env host port w) = Bedrock (bedrockResponse env host port status)
    \<and> (bedrock_Version (bedrockResponse env host port status) \<noteq> None) =
        (mcb_Version status \<noteq> None \<or> mcb_ProtocolVersion status \<noteq> None)
    \<and> bedrock_Version (bedrockResponse env host port status) =
        (if mcb_Version status = None \<and> mcb_ProtocolVersion status = None then None
         else Some \<lparr>bv_Name = mcb_Version status, bv_Protocol = mcb_ProtocolVersion status\<rparr>)
    \<and> (bedrock_Players (bedrockResponse env host port status) \<noteq> None) =
        (mcb_OnlinePlayers status \<noteq> None \<or> mcb_MaxPlayers status \<noteq> None)
    \<and> bedrock_Players (bedrockResponse env host port status) =
        (if mcb_OnlinePlayers status = None \<and> mcb_MaxPlayers status = None then None
         else Some \<lparr>bp_Online = mcb_OnlinePlayers status, bp_Max = mcb_MaxPlayers status\<rparr>)"
proof -
  have "fst (FetchBedrockStatus env host port w) = Bedrock (bedrockResponse env host port status)"
    using assms by (simp add: FetchBedrockStatus_Inr)
  then show ?thesis
    by (simp add: bedrockResponse_Version bedrockResponse_Players)
qed

theorem bedrock_lazy_containers_witness:
  "fst (FetchBedrockStatus envBedrock ''play.example'' 19132 emptyWorld)
     = Bedrock (bedrockResponse envBedrock ''play.example'' 19132 exampleBedrock)
   \<and> bedrock_Version (bedrockResponse envBedrock ''play.example'' 19132 exampleBedrock)
     = Some \<lparr>bv_Name = None, bv_Protocol = Some 594\<rparr>
   \<and> bedrock_Players (bedrockResponse envBedrock ''play.example'' 19132 exampleBedrock)
     = Some \<lparr>bp_Online = None, bp_Max = Some 30\<rparr>"
proof -
  have h: "mcutil_StatusBedrock envBedrock ''play.example'' 19132 = Inr exampleBedrock"
    by (simp add: envBedrock_def)
  have fields:
    "mcb_Version exampleBedrock = None" "mcb_ProtocolVersion exampleBedrock = Some 594"
    "mcb_OnlinePlayers exampleBedrock = None" "mcb_MaxPlayers exampleBedrock = Some 30"
    by (simp_all add: exampleBedrock_def)
  show ?thesis
    using bedrock_lazy_containers [OF h, of emptyWorld]
    by (simp add: fields)
qed

text \<open>
  C9. Whichever way a status is fetched (modern query, legacy query, no query answered,
  Bedrock query answered or not), the embedded \<open>StatusResponse\<close> of the record has the
  requested host, the requested port, and \<open>EULABlocked = IsBlockedAddress(host)\<close>; only
  \<open>Online\<close> depends on the queries.
\<close>

theorem base_fields_always:
  "Host (baseOf (fst (FetchJavaStatus env host port w))) = host
   \<and> Port (baseOf (fst (FetchJavaStatus env host port w))) = port
   \<and> EULABlocked (baseOf (fst (FetchJavaStatus env host port w))) = IsBlockedAddress env host
   \<and> Online (baseOf (fst (FetchJavaStatus env host port w))) =
       (\<not> (isl (mcutil_Status env host port) \<and> isl (mcutil_StatusLegacy env host port)))
   \<and> Host (baseOf (fst (FetchBedrockStatus env host port w))) = host
   \<and> Port (baseOf (fst (FetchBedrockStatus env host port w))) = port
   \<and> EULABlocked (baseOf (fst (FetchBedrockStatus env host port w))) = IsBlockedAddress env host
   \<and> Online (baseOf (fst (FetchBedrockStatus env host port w))) =
       (\<not> isl (mcutil_StatusBedrock env host port))"
proof -
  have java: "baseOf (fst (FetchJavaStatus env host port w)) =
      \<lparr>Online = (\<not> (isl (mcutil_Status env host port) \<and> isl (mcutil_StatusLegacy env host port))),
       Host = host, Port = port, EULABlocked = IsBlockedAddress env host\<rparr>"
  proof (cases "mcutil_Status env host port")
    case (Inr status)
    then show ?thesis
      by (simp add: FetchJavaStatus_modern baseOf_def modernResponse_base)
  next
    case modern: (Inl e)
    show ?thesis
    proof (cases "mcutil_StatusLegacy env host port")
      case (Inr sl)
      with modern show ?thesis
        by (simp add: FetchJavaStatus_legacy baseOf_def legacyResponse_fields)
    next
      case (Inl e')
      with modern show ?thesis
        by (simp add: FetchJavaStatus_offline baseOf_def)
    qed
  qed
  have bedrock: "baseOf (fst (FetchBedrockStatus env host port w)) =
      \<lparr>Online = (\<not> isl (mcutil_StatusBedrock env host port)),
       Host = host, Port = port, EULABlocked = IsBlockedAddress env host\<rparr>"
  proof (cases "mcutil_StatusBedrock env host port")
    case (Inr status)
    then show ?thesis
      by (simp add: FetchBedrockStatus_Inr baseOf_def bedrockResponse_base)
  next
    case (Inl e)
    then show ?thesis
      by (simp add: FetchBedrockStatus_Inl baseOf_def)
  qed
  show ?thesis
    by (simp add: java bedrock)
qed

text \<open>
  C7. When the modern query fails and the legacy query answers, the record returned is a
  \<open>JavaStatusResponse\<close> whose \<open>Icon\<close> is nil and whose \<open>Mods\<close> is an empty slice that is
  not nil, whatever the legacy record holds; its \<open>Version\<close> is nil exactly when the legacy
  record has none, and otherwise holds the legacy raw, clean and HTML names and protocol;
  and the player list is an empty slice that is not nil.
\<close>

theorem legacy_fallback_record:
  assumes "mcutil_Status env host port = Inl e"
    and "mcutil_StatusLegacy env host port = Inr sl"
  shows "fst (FetchJavaStatus env host port w) = Java (legacyResponse env host port sl)
    \<and> java_Icon (legacyResponse env host port sl) = None
    \<and> java_Mods (legacyResponse env host port sl) = Some []
    \<and> jp_List (java_Players (legacyResponse env host port sl)) = Some []
    \<and> (java_Version (legacyResponse env host port sl) \<noteq> None) = (mcl_Version sl \<noteq> None)
    \<and> java_Version (legacyResponse env host port sl) =
        (case mcl_Version sl of
           None \<Rightarrow> None
         | Some v \<Rightarrow>
             Some \<lparr>jv_NameRaw = mcv_NameRaw v, jv_NameClean = mcv_NameClean v,
                   jv_NameHTML = mcv_NameHTML v, jv_Protocol = mcv_Protocol v\<rparr>)"
proof -
  have "fst (FetchJavaStatus env host port w) = Java (legacyResponse env host port sl)"
    using assms by (simp add: FetchJavaStatus_legacy)
  moreover have "java_Version (legacyResponse env host port sl) =
        (case mcl_Version sl of
           None \<Rightarrow> None
         | Some v \<Rightarrow>
             Some \<lparr>jv_NameRaw = mcv_NameRaw v, jv_NameClean = mcv_NameClean v,
                   jv_NameHTML = mcv_NameHTML v, jv_Protocol = mcv_Protocol v\<rparr>)"
    by (simp add: legacyResponse_fields copyVersion_def split: option.splits)
  moreover have "(java_Version (legacyResponse env host port sl) \<noteq> None) = (mcl_Version sl \<noteq> None)"
    by (simp add: legacyResponse_fields)
  ultimately show ?thesis
    by (simp add: legacyResponse_fields)
qed

theorem legacy_fallback_record_witness:
  "fst (FetchJavaStatus envLegacy ''old.example'' 25565 emptyWorld)
     = Java (legacyResponse envLegacy ''old.example'' 25565 exampleLegacy)
   \<and> java_Icon (legacyResponse envLegacy ''old.example'' 25565 exampleLegacy) = None
   \<and> java_Mods (legacyResponse envLegacy ''old.example'' 25565 exampleLegacy) = Some []
   \<and> jp_List (java_Players (legacyResponse envLegacy ''old.example'' 25565 exampleLegacy))
       = Some []
   \<and> java_Version (legacyResponse envLegacy ''old.example'' 25565 exampleLegacy)
       = Some \<lparr>jv_NameRaw = ''1.6.4'', jv_NameClean = ''1.6.4'',
               jv_NameHTML = ''<span>1.6.4</span>'', jv_Protocol = 78\<rparr>"
proof -
  have modern: "mcutil_Status envLegacy ''old.example'' 25565 = Inl (Error ''connection refused'')"
    by (simp add: envLegacy_def exampleEnv_def)
  have legacy: "mcutil_StatusLegacy envLegacy ''old.example'' 25565 = Inr exampleLegacy"
    by (simp add: envLegacy_def)
  have version: "mcl_Version exampleLegacy = Some exampleVersion"
    by (simp add: exampleLegacy_def)
  show ?thesis
    using legacy_fallback_record [OF modern legacy, of emptyWorld]
    by (simp add: version exampleVersion_def)
qed

text \<open>
  C1, as the code has it. On a cache miss \<open>GetJavaStatus\<close> reads the store, then calls the
  modern query; only if that fails it calls the legacy query; if that fails too the record
  it builds is the bare \<open>StatusResponse\<close> with \<open>Online = false\<close>, the host, the port and
  \<open>EULABlocked\<close>. The record built is marshalled; the bytes are passed to \<open>r.Set\<close> under
  the key of the read and returned as a string with a nil TTL and a nil error if both
  steps succeed, and an error of \<open>json.Marshal\<close> or of \<open>r.Set\<close> is returned with the empty
  string. The error of a query appears nowhere in the result. The first three parts state
  the chain for \<open>FetchJavaStatus\<close> alone, the last three for \<open>GetJavaStatus\<close> on a miss.
\<close>

theorem java_fallback_chain:
  "(mcutil_Status env host port = Inr status \<longrightarrow>
      FetchJavaStatus env host port w =
        (Java (modernResponse env host port status),
         w\<lparr>calls := calls w @ [Call_Status host port]\<rparr>))
   \<and> (mcutil_Status env host port = Inl e \<and> mcutil_StatusLegacy env host port = Inr sl \<longrightarrow>
      FetchJavaStatus env host port w =
        (Java (legacyResponse env host port sl),
         w\<lparr>calls := calls w @ [Call_Status host port, Call_StatusLegacy host port]\<rparr>))
   \<and> (mcutil_Status env host port = Inl e \<and> mcutil_StatusLegacy env host port = Inl e' \<longrightarrow>
      FetchJavaStatus env host port w =
        (Base \<lparr>Online = False, Host = host, Port = port,
               EULABlocked = IsBlockedAddress env host\<rparr>,
         w\<lparr>calls := calls w @ [Call_Status host port, Call_StatusLegacy host port]\<rparr>))
   \<and> (r_GetCacheString env (store w) (Sprintf_s_d ''java:'' host port) = (False, v, t, e0)
      \<and> mcutil_Status env host port = Inr status \<longrightarrow>
      GetJavaStatus env host port w =
        (case json_Marshal env (Java (modernResponse env host port status)) of
           Inl err \<Rightarrow>
             (([], None, Some err),
              w\<lparr>calls := calls w @
                 [Call_GetCacheString (Sprintf_s_d ''java:'' host port),
                  Call_Status host port]\<rparr>)
         | Inr b \<Rightarrow>
             (case r_Set env (store w) (Sprintf_s_d ''java:'' host port) b
                     (config_JavaCacheDuration env) of
                (err, s') \<Rightarrow>
                  ((case err of
                      None \<Rightarrow> (elems b, None, None)
                    | Some e \<Rightarrow> ([], None, Some e)),
                   \<lparr>store = s',
                    calls = calls w @
                      [Call_GetCacheString (Sprintf_s_d ''java:'' host port),
                       Call_Status host port,
                       Call_Set (Sprintf_s_d ''java:'' host port) b
                         (config_JavaCacheDuration env)]\<rparr>))))
   \<and> (r_GetCacheString env (store w) (Sprintf_s_d ''java:'' host port) = (False, v, t, e0)
      \<and> mcutil_Status env host port = Inl e \<and> mcutil_StatusLegacy env host port = Inr sl \<longrightarrow>
      GetJavaStatus env host port w =
        (case json_Marshal env (Java (legacyResponse env host port sl)) of
           Inl err \<Rightarrow>
             (([], None, Some err),
              w\<lparr>calls := calls w @
                 [Call_GetCacheString (Sprintf_s_d ''java:'' host port),
                  Call_Status host port, Call_StatusLegacy host port]\<rparr>)
         | Inr b \<Rightarrow>
             (case r_Set env (store w) (Sprintf_s_d ''java:'' host port) b
                     (config_JavaCacheDuration env) of
                (err, s') \<Rightarrow>
                  ((case err of
                      None \<Rightarrow> (elems b, None, None)
                    | Some e \<Rightarrow> ([], None, Some e)),
                   \<lparr>store = s',
                    calls = calls w @
                      [Call_GetCacheString (Sprintf_s_d ''java:'' host port),
                       Call_Status host port, Call_StatusLegacy host port,
                       Call_Set (Sprintf_s_d ''java:'' host port) b
                         (config_JavaCacheDuration env)]\<rparr>))))
   \<and> (r_GetCacheString env (store w) (Sprintf_s_d ''java:'' host port) = (False, v, t, e0)
      \<and> mcutil_Status env host port = Inl e \<and> mcutil_StatusLegacy env host port = Inl e' \<longrightarrow>
      GetJavaStatus env host port w =
        (case json_Marshal env
                (Base \<lparr>Online = False, Host = host, Port = port,
                       EULABlocked = IsBlockedAddress env host\<rparr>) of
           Inl err \<Rightarrow>
             (([], None, Some err),
              w\<lparr>calls := calls w @
                 [Call_GetCacheString (Sprintf_s_d ''java:'' host port),
                  Call_Status host port, Call_StatusLegacy host port]\<rparr>)
         | Inr b \<Rightarrow>
             (case r_Set env (store w) (Sprintf_s_d ''java:'' host port) b
                     (config_JavaCacheDuration env) of
                (err, s') \<Rightarrow>
                  ((case err of
                      None \<Rightarrow> (elems b, None, None)
                    | Some e \<Rightarrow> ([], None, Some e)),
                   \<lparr>store = s',
                    calls = calls w @
                      [Call_GetCacheString (Sprintf_s_d ''java:'' host port),
                       Call_Status host port, Call_StatusLegacy host port,
                       Call_Set (Sprintf_s_d ''java:'' host port) b
                         (config_JavaCacheDuration env)]\<rparr>))))"
proof -
  have modern: "FetchJavaStatus env host port w' =
        (Java (modernResponse env host port status),
         w'\<lparr>calls := calls w' @ [Call_Status host port]\<rparr>)"
    if "mcutil_Status env host port = Inr status" for w' :: "'a world"
    using that by (simp add: FetchJavaStatus_modern logged_def)
  have legacy: "FetchJavaStatus env host port w' =
        (Java (legacyResponse env host port sl),
         w'\<lparr>calls := calls w' @ [Call_Status host port, Call_StatusLegacy host port]\<rparr>)"
    if "mcutil_Status env host port = Inl e" "mcutil_StatusLegacy env host port = Inr sl"
    for w' :: "'a world"
    using that by (simp add: FetchJavaStatus_legacy logged_def)
  have offline: "FetchJavaStatus env host port w' =
        (Base \<lparr>Online = False, Host = host, Port = port,
               EULABlocked = IsBlockedAddress env host\<rparr>,
         w'\<lparr>calls := calls w' @ [Call_Status host port, Call_StatusLegacy host port]\<rparr>)"
    if "mcutil_Status env host port = Inl e" "mcutil_StatusLegacy env host port = Inl e'"
    for w' :: "'a world"
    using that by (simp add: FetchJavaStatus_offline logged_def)
  show ?thesis
  proof (intro conjI impI)
    assume "mcutil_Status env host port = Inr status"
    then show "FetchJavaStatus env host port w =
        (Java (modernResponse env host port status),
         w\<lparr>calls := calls w @ [Call_Status host port]\<rparr>)"
      by (rule modern)
  next
    assume "mcutil_Status env host port = Inl e \<and> mcutil_StatusLegacy env host port = Inr sl"
    then show "FetchJavaStatus env host port w =
        (Java (legacyResponse env host port sl),
         w\<lparr>calls := calls w @ [Call_Status host port, Call_StatusLegacy host port]\<rparr>)"
      by (simp add: legacy)
  next
    assume "mcutil_Status env host port = Inl e \<and> mcutil_StatusLegacy env host port = Inl e'"
    then show "FetchJavaStatus env host port w =
        (Base \<lparr>Online = False, Host = host, Port = port,
               EULABlocked = IsBlockedAddress env host\<rparr>,
         w\<lparr>calls := calls w @ [Call_Status host port, Call_StatusLegacy host port]\<rparr>)"
      by (simp add: offline)
  next
    assume a: "r_GetCacheString env (store w) (Sprintf_s_d ''java:'' host port) = (False, v, t, e0)
      \<and> mcutil_Status env host port = Inr status"
    then have miss: "r_GetCacheString env (store w) (Sprintf_s_d ''java:'' host port)
        = (False, v, t, e0)"
      by simp
    from a have "\<And>w' :: 'a world. FetchJavaStatus env host port w' =
        (Java (modernResponse env host port status),
         w'\<lparr>calls := calls w' @ [Call_Status host port]\<rparr>)"
      by (simp add: modern)
    from GetJavaStatus_miss_queried [OF miss this]
    show "GetJavaStatus env host port w =
        (case json_Marshal env (Java (modernResponse env host port status)) of
           Inl err \<Rightarrow>
             (([], None, Some err),
              w\<lparr>calls := calls w @
                 [Call_GetCacheString (Sprintf_s_d ''java:'' host port),
                  Call_Status host port]\<rparr>)
         | Inr b \<Rightarrow>
             (case r_Set env (store w) (Sprintf_s_d ''java:'' host port) b
                     (config_JavaCacheDuration env) of
                (err, s') \<Rightarrow>
                  ((case err of
                      None \<Rightarrow> (elems b, None, None)
                    | Some e \<Rightarrow> ([], None, Some e)),
                   \<lparr>store = s',
                    calls = calls w @
                      [Call_GetCacheString (Sprintf_s_d ''java:'' host port),
                       Call_Status host port,
                       Call_Set (Sprintf_s_d ''java:'' host port) b
                         (config_JavaCacheDuration env)]\<rparr>)))"
      by (simp split: sum.splits prod.splits)
  next
    assume a: "r_GetCacheString env (store w) (Sprintf_s_d ''java:'' host port) = (False, v, t, e0)
      \<and> mcutil_Status env host port = Inl e \<and> mcutil_StatusLegacy env host port = Inr sl"
    then have miss: "r_GetCacheString env (store w) (Sprintf_s_d ''java:'' host port)
        = (False, v, t, e0)"
      by simp
    from a have "\<And>w' :: 'a world. FetchJavaStatus env host port w' =
        (Java (legacyResponse env host port sl),
         w'\<lparr>calls := calls w' @ [Call_Status host port, Call_StatusLegacy host port]\<rparr>)"
      by (simp add: legacy)
    from GetJavaStatus_miss_queried [OF miss this]
    show "GetJavaStatus env host port w =
        (case json_Marshal env (Java (legacyResponse env host port sl)) of
           Inl err \<Rightarrow>
             (([], None, Some err),
              w\<lparr>calls := calls w @
                 [Call_GetCacheString (Sprintf_s_d ''java:'' host port),
                  Call_Status host port, Call_StatusLegacy host port]\<rparr>)
         | Inr b \<Rightarrow>
             (case r_Set env (store w) (Sprintf_s_d ''java:'' host port) b
                     (config_JavaCacheDuration env) of
                (err, s') \<Rightarrow>
                  ((case err of
                      None \<Rightarrow> (elems b, None, None)
                    | Some e \<Rightarrow> ([], None, Some e)),
                   \<lparr>store = s',
                    calls = calls w @
                      [Call_GetCacheString (Sprintf_s_d ''java:'' host port),
                       Call_Status host port, Call_StatusLegacy host port,
                       Call_Set (Sprintf_s_d ''java:'' host port) b
                         (config_JavaCacheDuration env)]\<rparr>)))"
      by (simp split: sum.splits prod.splits)
  next
    assume a: "r_GetCacheString env (store w) (Sprintf_s_d ''java:'' host port) = (False, v, t, e0)
      \<and> mcutil_Status env host port = Inl e \<and> mcutil_StatusLegacy env host port = Inl e'"
    then have miss: "r_GetCacheString env (store w) (Sprintf_s_d ''java:'' host port)
        = (False, v, t, e0)"
      by simp
    from a have "\<And>w' :: 'a world. FetchJavaStatus env host port w' =
        (Base \<lparr>Online = False, Host = host, Port = port,
               EULABlocked = IsBlockedAddress env host\<rparr>,
         w'\<lparr>calls := calls w' @ [Call_Status host port, Call_StatusLegacy host port]\<rparr>)"
      by (simp add: offline)
    from GetJavaStatus_miss_queried [OF miss this]
    show "GetJavaStatus env host port w =
        (case json_Marshal env
                (Base \<lparr>Online = False, Host = host, Port = port,
                       EULABlocked = IsBlockedAddress env host\<rparr>) of
           Inl err \<Rightarrow>
             (([], None, Some err),
              w\<lparr>calls := calls w @
                 [Call_GetCacheString (Sprintf_s_d ''java:'' host port),
                  Call_Status host port, Call_StatusLegacy host port]\<rparr>)
         | Inr b \<Rightarrow>
             (case r_Set env (store w) (Sprintf_s_d ''java:'' host port) b
                     (config_JavaCacheDuration env) of
                (err, s') \<Rightarrow>
                  ((case err of
                      None \<Rightarrow> (elems b, None, None)
                    | Some e \<Rightarrow> ([], None, Some e)),
                   \<lparr>store = s',
                    calls = calls w @
                      [Call_GetCacheString (Sprintf_s_d ''java:'' host port),
                       Call_Status host port, Call_StatusLegacy host port,
                       Call_Set (Sprintf_s_d ''java:'' host port) b
                         (config_JavaCacheDuration env)]\<rparr>)))"
      by (simp split: sum.splits prod.splits)
  qed
qed

theorem java_fallback_chain_witness:
  "FetchJavaStatus envModern ''h'' 25565 emptyWorld =
     (Java (modernResponse envModern ''h'' 25565 (exampleJava None)),
      \<lparr>store = [], calls = [Call_Status ''h'' 25565]\<rparr>)
   \<and> FetchJavaStatus envLegacy ''h'' 25565 emptyWorld =
     (Java (legacyResponse envLegacy ''h'' 25565 exampleLegacy),
      \<lparr>store = [], calls = [Call_Status ''h'' 25565, Call_StatusLegacy ''h'' 25565]\<rparr>)
   \<and> FetchJavaStatus exampleEnv ''h'' 25565 emptyWorld =
     (Base \<lparr>Online = False, Host = ''h'', Port = 25565, EULABlocked = False\<rparr>,
      \<lparr>store = [], calls = [Call_Status ''h'' 25565, Call_StatusLegacy ''h'' 25565]\<rparr>)
   \<and> GetJavaStatus envModern ''h'' 25565 emptyWorld =
     ((''{java}'', None, None),
      \<lparr>store = [(''java:h-25565'', Some ''{java}'', 60)],
       calls = [Call_GetCacheString ''java:h-25565'', Call_Status ''h'' 25565,
                Call_Set ''java:h-25565'' (Some ''{java}'') 60]\<rparr>)
   \<and> GetJavaStatus envLegacy ''h'' 25565 emptyWorld =
     ((''{java}'', None, None),
      \<lparr>store = [(''java:h-25565'', Some ''{java}'', 60)],
       calls = [Call_GetCacheString ''java:h-25565'', Call_Status ''h'' 25565,
                Call_StatusLegacy ''h'' 25565,
                Call_Set ''java:h-25565'' (Some ''{java}'') 60]\<rparr>)
   \<and> GetJavaStatus exampleEnv ''h'' 25565 emptyWorld =
     ((''{offline}'', None, None),
      \<lparr>store = [(''java:h-25565'', Some ''{offline}'', 60)],
       calls = [Call_GetCacheString ''java:h-25565'', Call_Status ''h'' 25565,
                Call_StatusLegacy ''h'' 25565,
                Call_Set ''java:h-25565'' (Some ''{offline}'') 60]\<rparr>)"
proof -
  have m: "mcutil_Status envModern ''h'' 25565 = Inr (exampleJava None)"
    by (simp add: envModern_def)
  have l: "mcutil_Status envLegacy ''h'' 25565 = Inl (Error ''connection refused'')"
    "mcutil_StatusLegacy envLegacy ''h'' 25565 = Inr exampleLegacy"
    by (simp_all add: envLegacy_def exampleEnv_def)
  have o: "mcutil_Status exampleEnv ''h'' 25565 = Inl (Error ''connection refused'')"
    "mcutil_StatusLegacy exampleEnv ''h'' 25565 = Inl (Error ''connection refused'')"
    by (simp_all add: exampleEnv_def)
  have key: "Sprintf_s_d ''java:'' ''h'' 25565 = ''java:h-25565''"
    by (simp add: Sprintf_s_d_def fmt_d.simps digit_def)
  have miss: "r_GetCacheString envModern [] k = (False, [], 0, None)"
    "r_GetCacheString envLegacy [] k = (False, [], 0, None)"
    "r_GetCacheString exampleEnv [] k = (False, [], 0, None)" for k
    by (simp_all add: envModern_def envLegacy_def exampleEnv_def)
  have marshal: "json_Marshal envModern (Java j) = Inr (Some ''{java}'')"
    "json_Marshal envLegacy (Java j) = Inr (Some ''{java}'')"
    "json_Marshal exampleEnv (Base b) = Inr (Some ''{offline}'')" for j b
    by (simp_all add: envModern_def envLegacy_def exampleEnv_def exampleMarshal_def)
  have set: "r_Set envModern s k b d = (None, (k, b, d) # s)"
    "r_Set envLegacy s k b d = (None, (k, b, d) # s)"
    "r_Set exampleEnv s k b d = (None, (k, b, d) # s)" for s k b d
    by (simp_all add: envModern_def envLegacy_def exampleEnv_def)
  have dur: "config_JavaCacheDuration envModern = 60" "config_JavaCacheDuration envLegacy = 60"
    "config_JavaCacheDuration exampleEnv = 60"
    by (simp_all add: envModern_def envLegacy_def exampleEnv_def)
  have blocked: "IsBlockedAddress exampleEnv ''h'' = False"
    by (simp add: exampleEnv_def)
  have world: "store emptyWorld = []" "calls emptyWorld = []"
    "emptyWorld\<lparr>calls := cs\<rparr> = \<lparr>store = [], calls = cs\<rparr>" for cs
    by (simp_all add: emptyWorld_def)
  note chain = java_fallback_chain
  have a: "FetchJavaStatus envModern ''h'' 25565 emptyWorld =
     (Java (modernResponse envModern ''h'' 25565 (exampleJava None)),
      \<lparr>store = [], calls = [Call_Status ''h'' 25565]\<rparr>)"
    using chain [where env = envModern and host = "''h''" and port = 25565
        and status = "exampleJava None" and w = emptyWorld] m
    by (simp add: world)
  have b: "FetchJavaStatus envLegacy ''h'' 25565 emptyWorld =
     (Java (legacyResponse envLegacy ''h'' 25565 exampleLegacy),
      \<lparr>store = [], calls = [Call_Status ''h'' 25565, Call_StatusLegacy ''h'' 25565]\<rparr>)"
    using chain [where env = envLegacy and host = "''h''" and port = 25565 and w = emptyWorld
        and e = "Error ''connection refused''" and sl = exampleLegacy] l
    by (simp add: world)
  have c: "FetchJavaStatus exampleEnv ''h'' 25565 emptyWorld =
     (Base \<lparr>Online = False, Host = ''h'', Port = 25565, EULABlocked = False\<rparr>,
      \<lparr>store = [], calls = [Call_Status ''h'' 25565, Call_StatusLegacy ''h'' 25565]\<rparr>)"
    using chain [where env = exampleEnv and host = "''h''" and port = 25565 and w = emptyWorld
        and e = "Error ''connection refused''" and e' = "Error ''connection refused''"] o
    by (simp add: world blocked)
  have g1: "GetJavaStatus envModern ''h'' 25565 emptyWorld =
     ((''{java}'', None, None),
      \<lparr>store = [(''java:h-25565'', Some ''{java}'', 60)],
       calls = [Call_GetCacheString ''java:h-25565'', Call_Status ''h'' 25565,
                Call_Set ''java:h-25565'' (Some ''{java}'') 60]\<rparr>)"
    using chain [where env = envModern and host = "''h''" and port = 25565
        and status = "exampleJava None" and w = emptyWorld
        and v = "[]" and t = 0 and ?e0.0 = None] m
    by (simp add: world key miss marshal set dur elems_def)
  have g2: "GetJavaStatus envLegacy ''h'' 25565 emptyWorld =
     ((''{java}'', None, None),
      \<lparr>store = [(''java:h-25565'', Some ''{java}'', 60)],
       calls = [Call_GetCacheString ''java:h-25565'', Call_Status ''h'' 25565,
                Call_StatusLegacy ''h'' 25565,
                Call_Set ''java:h-25565'' (Some ''{java}'') 60]\<rparr>)"
    using chain [where env = envLegacy and host = "''h''" and port = 25565 and w = emptyWorld
        and e = "Error ''connection refused''" and sl = exampleLegacy
        and v = "[]" and t = 0 and ?e0.0 = None] l
    by (simp add: world key miss marshal set dur elems_def)
  have g3: "GetJavaStatus exampleEnv ''h'' 25565 emptyWorld =
     ((''{offline}'', None, None),
      \<lparr>store = [(''java:h-25565'', Some ''{offline}'', 60)],
       calls = [Call_GetCacheString ''java:h-25565'', Call_Status ''h'' 25565,
                Call_StatusLegacy ''h'' 25565,
                Call_Set ''java:h-25565'' (Some ''{offline}'') 60]\<rparr>)"
    using chain [where env = exampleEnv and host = "''h''" and port = 25565 and w = emptyWorld
        and e = "Error ''connection refused''" and e' = "Error ''connection refused''"
        and v = "[]" and t = 0 and ?e0.0 = None] o
    by (simp add: world key miss marshal set dur elems_def)
  from a b c g1 g2 g3 show ?thesis
    by simp
qed

text \<open>
  C1 as the claim has it fails: on a miss where both queries fail, the offline record is
  not always what the caller gets. With a store that refuses writes, both queries fail,
  the offline record is built and marshalled, \<open>r.Set\<close> fails, and \<open>GetJavaStatus\<close> returns
  the empty string with the error of \<open>r.Set\<close>.
\<close>

theorem offline_record_not_returned:
  "fst (r_GetCacheString envNoSet (store emptyWorld) ''java:h-25565'') = False
   \<and> mcutil_Status envNoSet ''h'' 25565 = Inl (Error ''connection refused'')
   \<and> mcutil_StatusLegacy envNoSet ''h'' 25565 = Inl (Error ''connection refused'')
   \<and> fst (FetchJavaStatus envNoSet ''h'' 25565 emptyWorld) =
       Base \<lparr>Online = False, Host = ''h'', Port = 25565, EULABlocked = False\<rparr>
   \<and> GetJavaStatus envNoSet ''h'' 25565 emptyWorld =
       (([], None, Some (Error ''READONLY'')),
        \<lparr>store = [],
         calls = [Call_GetCacheString ''java:h-25565'', Call_Status ''h'' 25565,
                  Call_StatusLegacy ''h'' 25565,
                  Call_Set ''java:h-25565'' (Some ''{offline}'') 60]\<rparr>)"
proof -
  have key: "Sprintf_s_d ''java:'' ''h'' 25565 = ''java:h-25565''"
    by (simp add: Sprintf_s_d_def fmt_d.simps digit_def)
  have "GetJavaStatus envNoSet ''h'' 25565 emptyWorld =
       (([], None, Some (Error ''READONLY'')),
        \<lparr>store = [],
         calls = [Call_GetCacheString ''java:h-25565'', Call_Status ''h'' 25565,
                  Call_StatusLegacy ''h'' 25565,
                  Call_Set ''java:h-25565'' (Some ''{offline}'') 60]\<rparr>)"
    by (simp add: GetJavaStatus_def key Let_def do_GetCacheString_def FetchJavaStatus_def
        do_Status_def do_StatusLegacy_def do_Set_def logged_def envNoSet_def exampleEnv_def
        exampleMarshal_def emptyWorld_def)
  moreover have "fst (FetchJavaStatus envNoSet ''h'' 25565 emptyWorld) =
       Base \<lparr>Online = False, Host = ''h'', Port = 25565, EULABlocked = False\<rparr>"
    by (simp add: FetchJavaStatus_def do_Status_def do_StatusLegacy_def envNoSet_def
        exampleEnv_def)
  ultimately show ?thesis
    by (simp add: envNoSet_def exampleEnv_def emptyWorld_def)
qed

text \<open>
  C4. On a cache miss of \<open>GetJavaStatus\<close> or \<open>GetBedrockStatus\<close>, an error of \<open>json.Marshal\<close>
  and an error of \<open>r.Set\<close> are each returned as they are, with the empty string and no
  TTL.
\<close>

theorem marshal_and_set_errors_returned:
  "(r_GetCacheString env (store w) (Sprintf_s_d ''java:'' host port) = (False, v, t, e0)
      \<and> json_Marshal env (fst (FetchJavaStatus env host port w)) = Inl e \<longrightarrow>
      fst (GetJavaStatus env host port w) = ([], None, Some e))
   \<and> (r_GetCacheString env (store w) (Sprintf_s_d ''java:'' host port) = (False, v, t, e0)
      \<and> json_Marshal env (fst (FetchJavaStatus env host port w)) = Inr b
      \<and> r_Set env (store w) (Sprintf_s_d ''java:'' host port) b (config_JavaCacheDuration env)
          = (Some e, s') \<longrightarrow>
      fst (GetJavaStatus env host port w) = ([], None, Some e))
   \<and> (r_GetCacheString env (store w) (Sprintf_s_d ''bedrock:'' host port) = (False, v, t, e0)
      \<and> json_Marshal env (fst (FetchBedrockStatus env host port w)) = Inl e \<longrightarrow>
      fst (GetBedrockStatus env host port w) = ([], None, Some e))
   \<and> (r_GetCacheString env (store w) (Sprintf_s_d ''bedrock:'' host port) = (False, v, t, e0)
      \<and> json_Marshal env (fst (FetchBedrockStatus env host port w)) = Inr b
      \<and> r_Set env (store w) (Sprintf_s_d ''bedrock:'' host port) b
           (config_BedrockCacheDuration env) = (Some e, s') \<longrightarrow>
      fst (GetBedrockStatus env host port w) = ([], None, Some e))"
proof (intro conjI impI)
  assume "r_GetCacheString env (store w) (Sprintf_s_d ''java:'' host port) = (False, v, t, e0)
      \<and> json_Marshal env (fst (FetchJavaStatus env host port w)) = Inl e"
  then show "fst (GetJavaStatus env host port w) = ([], None, Some e)"
    by (simp add: GetJavaStatus_marshal_error)
next
  assume "r_GetCacheString env (store w) (Sprintf_s_d ''java:'' host port) = (False, v, t, e0)
      \<and> json_Marshal env (fst (FetchJavaStatus env host port w)) = Inr b
      \<and> r_Set env (store w) (Sprintf_s_d ''java:'' host port) b (config_JavaCacheDuration env)
          = (Some e, s')"
  then show "fst (GetJavaStatus env host port w) = ([], None, Some e)"
    by (simp add: GetJavaStatus_set)
next
  assume "r_GetCacheString env (store w) (Sprintf_s_d ''bedrock:'' host port) = (False, v, t, e0)
      \<and> json_Marshal env (fst (FetchBedrockStatus env host port w)) = Inl e"
  then show "fst (GetBedrockStatus env host port w) = ([], None, Some e)"
    by (simp add: GetBedrockStatus_marshal_error)
next
  assume "r_GetCacheString env (store w) (Sprintf_s_d ''bedrock:'' host port) = (False, v, t, e0)
      \<and> json_Marshal env (fst (FetchBedrockStatus env host port w)) = Inr b
      \<and> r_Set env (store w) (Sprintf_s_d ''bedrock:'' host port) b
           (config_BedrockCacheDuration env) = (Some e, s')"
  then show "fst (GetBedrockStatus env host port w) = ([], None, Some e)"
    by (simp add: GetBedrockStatus_set)
qed

theorem marshal_and_set_errors_returned_witness:
  "fst (GetJavaStatus envNoMarshal ''h'' 25565 emptyWorld)
     = ([], None, Some (Error ''json: unsupported value''))
   \<and> fst (GetJavaStatus envNoSet ''h'' 25565 emptyWorld) = ([], None, Some (Error ''READONLY''))
   \<and> fst (GetBedrockStatus envNoMarshal ''h'' 19132 emptyWorld)
     = ([], None, Some (Error ''json: unsupported value''))
   \<and> fst (GetBedrockStatus envNoSet ''h'' 19132 emptyWorld)
     = ([], None, Some (Error ''READONLY''))"
proof -
  have keys: "Sprintf_s_d ''java:'' ''h'' 25565 = ''java:h-25565''"
    "Sprintf_s_d ''bedrock:'' ''h'' 19132 = ''bedrock:h-19132''"
    by (simp_all add: Sprintf_s_d_def fmt_d.simps digit_def)
  have miss: "r_GetCacheString envNoMarshal (store emptyWorld) k = (False, [], 0, None)"
    "r_GetCacheString envNoSet (store emptyWorld) k = (False, [], 0, None)" for k
    by (simp_all add: envNoMarshal_def envNoSet_def exampleEnv_def emptyWorld_def)
  have marshal: "json_Marshal envNoMarshal r = Inl (Error ''json: unsupported value'')" for r
    by (simp add: envNoMarshal_def)
  have fetched: "json_Marshal envNoSet (fst (FetchJavaStatus envNoSet ''h'' 25565 emptyWorld))
      = Inr (Some ''{offline}'')"
    "json_Marshal envNoSet (fst (FetchBedrockStatus envNoSet ''h'' 19132 emptyWorld))
      = Inr (Some ''{offline}'')"
    by (simp_all add: envNoSet_def exampleEnv_def exampleMarshal_def FetchJavaStatus_def
        FetchBedrockStatus_def do_Status_def do_StatusLegacy_def do_StatusBedrock_def)
  have set: "r_Set envNoSet s k b d = (Some (Error ''READONLY''), s)" for s k b d
    by (simp add: envNoSet_def)
  note errs = marshal_and_set_errors_returned
  have a: "fst (GetJavaStatus envNoMarshal ''h'' 25565 emptyWorld)
     = ([], None, Some (Error ''json: unsupported value''))"
    using errs [where env = envNoMarshal and host = "''h''" and port = 25565 and w = emptyWorld
        and v = "[]" and t = 0 and ?e0.0 = None and e = "Error ''json: unsupported value''"]
    by (simp add: miss marshal)
  have b: "fst (GetJavaStatus envNoSet ''h'' 25565 emptyWorld) = ([], None, Some (Error ''READONLY''))"
    using errs [where env = envNoSet and host = "''h''" and port = 25565 and w = emptyWorld
        and v = "[]" and t = 0 and ?e0.0 = None and e = "Error ''READONLY''"
        and b = "Some ''{offline}''" and s' = "store emptyWorld"]
    by (simp add: miss fetched set)
  have c: "fst (GetBedrockStatus envNoMarshal ''h'' 19132 emptyWorld)
     = ([], None, Some (Error ''json: unsupported value''))"
    using errs [where env = envNoMarshal and host = "''h''" and port = 19132 and w = emptyWorld
        and v = "[]" and t = 0 and ?e0.0 = None and e = "Error ''json: unsupported value''"]
    by (simp add: miss marshal)
  have d: "fst (GetBedrockStatus envNoSet ''h'' 19132 emptyWorld)
     = ([], None, Some (Error ''READONLY''))"
    using errs [where env = envNoSet and host = "''h''" and port = 19132 and w = emptyWorld
        and v = "[]" and t = 0 and ?e0.0 = None and e = "Error ''READONLY''"
        and b = "Some ''{offline}''" and s' = "store emptyWorld"]
    by (simp add: miss fetched set)
  from a b c d show ?thesis
    by simp
qed

text \<open>
  C5. The claim is that a read of the store that reports no entry together with an error
  makes the operation return that error. The code tests only \<open>exists\<close>: with
  \<open>exists = false\<close> the error of the read is overwritten by the next assignment to \<open>err\<close>,
  the queries run, the result is stored and returned with a nil error. Here every read
  returns \<open>(false, _, _, "i/o timeout")\<close>, and both operations answer as on a plain miss.
\<close>

theorem read_error_on_miss_is_dropped:
  "GetJavaStatus envReadError ''h'' 25565 emptyWorld =
     ((''{offline}'', None, None),
      \<lparr>store = [(''java:h-25565'', Some ''{offline}'', 60)],
       calls = [Call_GetCacheString ''java:h-25565'', Call_Status ''h'' 25565,
                Call_StatusLegacy ''h'' 25565,
                Call_Set ''java:h-25565'' (Some ''{offline}'') 60]\<rparr>)
   \<and> GetServerIcon envReadError ''h'' 25565 emptyWorld =
     ((Some ''default.png'', None, None),
      \<lparr>store = [(''icon:h-25565'', Some ''default.png'', 3600)],
       calls = [Call_GetCacheBytes ''icon:h-25565'', Call_Status ''h'' 25565,
                Call_Set ''icon:h-25565'' (Some ''default.png'') 3600]\<rparr>)
   \<and> r_GetCacheString envReadError (store emptyWorld) ''java:h-25565''
       = (False, [], 0, Some (Error ''i/o timeout''))
   \<and> r_GetCacheBytes envReadError (store emptyWorld) ''icon:h-25565''
       = (False, None, 0, Some (Error ''i/o timeout''))"
proof -
  have keys: "Sprintf_s_d ''java:'' ''h'' 25565 = ''java:h-25565''"
    "Sprintf_s_d ''icon:'' ''h'' 25565 = ''icon:h-25565''"
    by (simp_all add: Sprintf_s_d_def fmt_d.simps digit_def)
  have java: "GetJavaStatus envReadError ''h'' 25565 emptyWorld =
     ((''{offline}'', None, None),
      \<lparr>store = [(''java:h-25565'', Some ''{offline}'', 60)],
       calls = [Call_GetCacheString ''java:h-25565'', Call_Status ''h'' 25565,
                Call_StatusLegacy ''h'' 25565,
                Call_Set ''java:h-25565'' (Some ''{offline}'') 60]\<rparr>)"
    by (simp add: GetJavaStatus_def keys Let_def do_GetCacheString_def FetchJavaStatus_def
        do_Status_def do_StatusLegacy_def do_Set_def logged_def envReadError_def exampleEnv_def
        exampleMarshal_def emptyWorld_def elems_def)
  have icon: "GetServerIcon envReadError ''h'' 25565 emptyWorld =
     ((Some ''default.png'', None, None),
      \<lparr>store = [(''icon:h-25565'', Some ''default.png'', 3600)],
       calls = [Call_GetCacheBytes ''icon:h-25565'', Call_Status ''h'' 25565,
                Call_Set ''icon:h-25565'' (Some ''default.png'') 3600]\<rparr>)"
    by (simp add: GetServerIcon_def keys Let_def do_GetCacheBytes_def setIcon_def
        do_Status_def do_Set_def logged_def envReadError_def exampleEnv_def emptyWorld_def)
  show ?thesis
    by (simp add: java icon) (simp add: envReadError_def)
qed

text \<open>
  C8, as the code has it. On a cache hit each of the three operations returns the value
  and the remaining TTL that the store gave, and calls nothing but the read of the store.
  On a miss the TTL returned is nil. On a miss of a status operation where \<open>json.Marshal\<close>
  and \<open>r.Set\<close> succeed, the string returned is the marshalled record that was just passed
  to \<open>r.Set\<close>; on a miss of the icon operation that returns no error, the bytes returned
  are those of the last call, which is the \<open>r.Set\<close> under the icon key. On a miss where
  \<open>json.Marshal\<close>, the decoding or \<open>r.Set\<close> fails, that error is returned with the empty
  string or nil bytes: the last seven parts give the value and the error returned on
  every miss of each operation, whatever succeeds or fails.
\<close>

theorem cache_hit_or_fresh:
  "(r_GetCacheString env (store w) (Sprintf_s_d ''java:'' host port) = (True, v, t, e) \<longrightarrow>
      GetJavaStatus env host port w =
        ((v, Some t, e),
         w\<lparr>calls := calls w @ [Call_GetCacheString (Sprintf_s_d ''java:'' host port)]\<rparr>))
   \<and> (r_GetCacheString env (store w) (Sprintf_s_d ''java:'' host port) = (False, v, t, e) \<longrightarrow>
      resTTL (fst (GetJavaStatus env host port w)) = None)
   \<and> (r_GetCacheString env (store w) (Sprintf_s_d ''java:'' host port) = (False, v, t, e)
      \<and> json_Marshal env (fst (FetchJavaStatus env host port w)) = Inr b
      \<and> r_Set env (store w) (Sprintf_s_d ''java:'' host port) b (config_JavaCacheDuration env)
          = (None, s') \<longrightarrow>
      GetJavaStatus env host port w =
        ((elems b, None, None),
         (logged (Call_Set (Sprintf_s_d ''java:'' host port) b (config_JavaCacheDuration env))
            (snd (FetchJavaStatus env host port
                   (logged (Call_GetCacheString (Sprintf_s_d ''java:'' host port)) w))))
           \<lparr>store := s'\<rparr>))
   \<and> (r_GetCacheString env (store w) (Sprintf_s_d ''bedrock:'' host port) = (True, v, t, e) \<longrightarrow>
      GetBedrockStatus env host port w =
        ((v, Some t, e),
         w\<lparr>calls := calls w @ [Call_GetCacheString (Sprintf_s_d ''bedrock:'' host port)]\<rparr>))
   \<and> (r_GetCacheString env (store w) (Sprintf_s_d ''bedrock:'' host port) = (False, v, t, e) \<longrightarrow>
      resTTL (fst (GetBedrockStatus env host port w)) = None)
   \<and> (r_GetCacheString env (store w) (Sprintf_s_d ''bedrock:'' host port) = (False, v, t, e)
      \<and> json_Marshal env (fst (FetchBedrockStatus env host port w)) = Inr b
      \<and> r_Set env (store w) (Sprintf_s_d ''bedrock:'' host port) b
           (config_BedrockCacheDuration env) = (None, s') \<longrightarrow>
      GetBedrockStatus env host port w =
        ((elems b, None, None),
         (logged (Call_Set (Sprintf_s_d ''bedrock:'' host port) b
                    (config_BedrockCacheDuration env))
            (snd (FetchBedrockStatus env host port
                   (logged (Call_GetCacheString (Sprintf_s_d ''bedrock:'' host port)) w))))
           \<lparr>store := s'\<rparr>))
   \<and> (r_GetCacheBytes env (store w) (Sprintf_s_d ''icon:'' host port) = (True, iv, t, e) \<longrightarrow>
      GetServerIcon env host port w =
        ((iv, Some t, e),
         w\<lparr>calls := calls w @ [Call_GetCacheBytes (Sprintf_s_d ''icon:'' host port)]\<rparr>))
   \<and> (r_GetCacheBytes env (store w) (Sprintf_s_d ''icon:'' host port) = (False, iv, t, e) \<longrightarrow>
      resTTL (fst (GetServerIcon env host port w)) = None)
   \<and> (r_GetCacheBytes env (store w) (Sprintf_s_d ''icon:'' host port) = (False, iv, t, e)
      \<and> resErr (fst (GetServerIcon env host port w)) = None \<longrightarrow>
      last (calls (snd (GetServerIcon env host port w))) =
        Call_Set (Sprintf_s_d ''icon:'' host port) (resValue (fst (GetServerIcon env host port w)))
          (config_IconCacheDuration env))
   \<and> (r_GetCacheString env (store w) (Sprintf_s_d ''java:'' host port) = (False, v, t, e) \<longrightarrow>
      fst (GetJavaStatus env host port w) =
        (case json_Marshal env (fst (FetchJavaStatus env host port w)) of
           Inl err \<Rightarrow> ([], None, Some err)
         | Inr b \<Rightarrow>
             (case fst (r_Set env (store w) (Sprintf_s_d ''java:'' host port) b
                          (config_JavaCacheDuration env)) of
                None \<Rightarrow> (elems b, None, None)
              | Some err \<Rightarrow> ([], None, Some err))))
   \<and> (r_GetCacheString env (store w) (Sprintf_s_d ''bedrock:'' host port) = (False, v, t, e) \<longrightarrow>
      fst (GetBedrockStatus env host port w) =
        (case json_Marshal env (fst (FetchBedrockStatus env host port w)) of
           Inl err \<Rightarrow> ([], None, Some err)
         | Inr b \<Rightarrow>
             (case fst (r_Set env (store w) (Sprintf_s_d ''bedrock:'' host port) b
                          (config_BedrockCacheDuration env)) of
                None \<Rightarrow> (elems b, None, None)
              | Some err \<Rightarrow> ([], None, Some err))))
   \<and> (r_GetCacheBytes env (store w) (Sprintf_s_d ''icon:'' host port) = (False, iv, t, e)
      \<and> mcutil_Status env host port = Inl qe \<longrightarrow>
      fst (GetServerIcon env host port w) =
        (case fst (r_Set env (store w) (Sprintf_s_d ''icon:'' host port) (defaultIconBytes env)
                     (config_IconCacheDuration env)) of
           None \<Rightarrow> (defaultIconBytes env, None, None)
         | Some err \<Rightarrow> (None, None, Some err)))
   \<and> (r_GetCacheBytes env (store w) (Sprintf_s_d ''icon:'' host port) = (False, iv, t, e)
      \<and> mcutil_Status env host port = Inr status \<and> mcj_Favicon status = None \<longrightarrow>
      fst (GetServerIcon env host port w) =
        (case fst (r_Set env (store w) (Sprintf_s_d ''icon:'' host port) (defaultIconBytes env)
                     (config_IconCacheDuration env)) of
           None \<Rightarrow> (defaultIconBytes env, None, None)
         | Some err \<Rightarrow> (None, None, Some err)))
   \<and> (r_GetCacheBytes env (store w) (Sprintf_s_d ''icon:'' host port) = (False, iv, t, e)
      \<and> mcutil_Status env host port = Inr status \<and> mcj_Favicon status = Some favicon
      \<and> \<not> HasPrefix favicon ''data:image/png;base64,'' \<longrightarrow>
      fst (GetServerIcon env host port w) =
        (case fst (r_Set env (store w) (Sprintf_s_d ''icon:'' host port) (defaultIconBytes env)
                     (config_IconCacheDuration env)) of
           None \<Rightarrow> (defaultIconBytes env, None, None)
         | Some err \<Rightarrow> (None, None, Some err)))
   \<and> (r_GetCacheBytes env (store w) (Sprintf_s_d ''icon:'' host port) = (False, iv, t, e)
      \<and> mcutil_Status env host port = Inr status
      \<and> mcj_Favicon status = Some (''data:image/png;base64,'' @ rest)
      \<and> base64_DecodeString env rest = Inl de \<longrightarrow>
      fst (GetServerIcon env host port w) = (None, None, Some de))
   \<and> (r_GetCacheBytes env (store w) (Sprintf_s_d ''icon:'' host port) = (False, iv, t, e)
      \<and> mcutil_Status env host port = Inr status
      \<and> mcj_Favicon status = Some (''data:image/png;base64,'' @ rest)
      \<and> base64_DecodeString env rest = Inr data \<longrightarrow>
      fst (GetServerIcon env host port w) =
        (case fst (r_Set env (store w) (Sprintf_s_d ''icon:'' host port) data
                     (config_IconCacheDuration env)) of
           None \<Rightarrow> (data, None, None)
         | Some err \<Rightarrow> (None, None, Some err)))"
proof (intro conjI impI)
  assume "r_GetCacheString env (store w) (Sprintf_s_d ''java:'' host port) = (True, v, t, e)"
  then show "GetJavaStatus env host port w =
        ((v, Some t, e),
         w\<lparr>calls := calls w @ [Call_GetCacheString (Sprintf_s_d ''java:'' host port)]\<rparr>)"
    by (rule GetJavaStatus_hit)
next
  assume "r_GetCacheString env (store w) (Sprintf_s_d ''java:'' host port) = (False, v, t, e)"
  then show "resTTL (fst (GetJavaStatus env host port w)) = None"
    by (rule GetJavaStatus_miss_ttl)
next
  assume "r_GetCacheString env (store w) (Sprintf_s_d ''java:'' host port) = (False, v, t, e)
      \<and> json_Marshal env (fst (FetchJavaStatus env host port w)) = Inr b
      \<and> r_Set env (store w) (Sprintf_s_d ''java:'' host port) b (config_JavaCacheDuration env)
          = (None, s')"
  then show "GetJavaStatus env host port w =
        ((elems b, None, None),
         (logged (Call_Set (Sprintf_s_d ''java:'' host port) b (config_JavaCacheDuration env))
            (snd (FetchJavaStatus env host port
                   (logged (Call_GetCacheString (Sprintf_s_d ''java:'' host port)) w))))
           \<lparr>store := s'\<rparr>)"
    by (simp add: GetJavaStatus_set)
next
  assume "r_GetCacheString env (store w) (Sprintf_s_d ''bedrock:'' host port) = (True, v, t, e)"
  then show "GetBedrockStatus env host port w =
        ((v, Some t, e),
         w\<lparr>calls := calls w @ [Call_GetCacheString (Sprintf_s_d ''bedrock:'' host port)]\<rparr>)"
    by (rule GetBedrockStatus_hit)
next
  assume "r_GetCacheString env (store w) (Sprintf_s_d ''bedrock:'' host port) = (False, v, t, e)"
  then show "resTTL (fst (GetBedrockStatus env host port w)) = None"
    by (rule GetBedrockStatus_miss_ttl)
next
  assume "r_GetCacheString env (store w) (Sprintf_s_d ''bedrock:'' host port) = (False, v, t, e)
      \<and> json_Marshal env (fst (FetchBedrockStatus env host port w)) = Inr b
      \<and> r_Set env (store w) (Sprintf_s_d ''bedrock:'' host port) b
           (config_BedrockCacheDuration env) = (None, s')"
  then show "GetBedrockStatus env host port w =
        ((elems b, None, None),
         (logged (Call_Set (Sprintf_s_d ''bedrock:'' host port) b
                    (config_BedrockCacheDuration env))
            (snd (FetchBedrockStatus env host port
                   (logged (Call_GetCacheString (Sprintf_s_d ''bedrock:'' host port)) w))))
           \<lparr>store := s'\<rparr>)"
    by (simp add: GetBedrockStatus_set)
next
  assume "r_GetCacheBytes env (store w) (Sprintf_s_d ''icon:'' host port) = (True, iv, t, e)"
  then show "GetServerIcon env host port w =
        ((iv, Some t, e),
         w\<lparr>calls := calls w @ [Call_GetCacheBytes (Sprintf_s_d ''icon:'' host port)]\<rparr>)"
    by (rule GetServerIcon_hit)
next
  assume "r_GetCacheBytes env (store w) (Sprintf_s_d ''icon:'' host port) = (False, iv, t, e)"
  then show "resTTL (fst (GetServerIcon env host port w)) = None"
    by (rule GetServerIcon_miss_ttl)
next
  assume "r_GetCacheBytes env (store w) (Sprintf_s_d ''icon:'' host port) = (False, iv, t, e)
      \<and> resErr (fst (GetServerIcon env host port w)) = None"
  then show "last (calls (snd (GetServerIcon env host port w))) =
        Call_Set (Sprintf_s_d ''icon:'' host port) (resValue (fst (GetServerIcon env host port w)))
          (config_IconCacheDuration env)"
    by (simp add: GetServerIcon_miss_stored)
next
  assume "r_GetCacheString env (store w) (Sprintf_s_d ''java:'' host port) = (False, v, t, e)"
  then show "fst (GetJavaStatus env host port w) =
        (case json_Marshal env (fst (FetchJavaStatus env host port w)) of
           Inl err \<Rightarrow> ([], None, Some err)
         | Inr b \<Rightarrow>
             (case fst (r_Set env (store w) (Sprintf_s_d ''java:'' host port) b
                          (config_JavaCacheDuration env)) of
                None \<Rightarrow> (elems b, None, None)
              | Some err \<Rightarrow> ([], None, Some err)))"
    by (rule GetJavaStatus_miss_result)
next
  assume "r_GetCacheString env (store w) (Sprintf_s_d ''bedrock:'' host port) = (False, v, t, e)"
  then show "fst (GetBedrockStatus env host port w) =
        (case json_Marshal env (fst (FetchBedrockStatus env host port w)) of
           Inl err \<Rightarrow> ([], None, Some err)
         | Inr b \<Rightarrow>
             (case fst (r_Set env (store w) (Sprintf_s_d ''bedrock:'' host port) b
                          (config_BedrockCacheDuration env)) of
                None \<Rightarrow> (elems b, None, None)
              | Some err \<Rightarrow> ([], None, Some err)))"
    by (rule GetBedrockStatus_miss_result)
next
  assume "r_GetCacheBytes env (store w) (Sprintf_s_d ''icon:'' host port) = (False, iv, t, e)
      \<and> mcutil_Status env host port = Inl qe"
  then show "fst (GetServerIcon env host port w) =
        (case fst (r_Set env (store w) (Sprintf_s_d ''icon:'' host port) (defaultIconBytes env)
                     (config_IconCacheDuration env)) of
           None \<Rightarrow> (defaultIconBytes env, None, None)
         | Some err \<Rightarrow> (None, None, Some err))"
    using GetServerIcon_query_failed [of env w host port iv t e qe]
    by (simp add: setIcon_fst)
next
  assume "r_GetCacheBytes env (store w) (Sprintf_s_d ''icon:'' host port) = (False, iv, t, e)
      \<and> mcutil_Status env host port = Inr status \<and> mcj_Favicon status = None"
  then show "fst (GetServerIcon env host port w) =
        (case fst (r_Set env (store w) (Sprintf_s_d ''icon:'' host port) (defaultIconBytes env)
                     (config_IconCacheDuration env)) of
           None \<Rightarrow> (defaultIconBytes env, None, None)
         | Some err \<Rightarrow> (None, None, Some err))"
    using GetServerIcon_no_favicon [of env w host port iv t e status]
    by (simp add: setIcon_fst)
next
  assume "r_GetCacheBytes env (store w) (Sprintf_s_d ''icon:'' host port) = (False, iv, t, e)
      \<and> mcutil_Status env host port = Inr status \<and> mcj_Favicon status = Some favicon
      \<and> \<not> HasPrefix favicon ''data:image/png;base64,''"
  then show "fst (GetServerIcon env host port w) =
        (case fst (r_Set env (store w) (Sprintf_s_d ''icon:'' host port) (defaultIconBytes env)
                     (config_IconCacheDuration env)) of
           None \<Rightarrow> (defaultIconBytes env, None, None)
         | Some err \<Rightarrow> (None, None, Some err))"
    using GetServerIcon_other_prefix [of env w host port iv t e status favicon]
    by (simp add: setIcon_fst pngPrefix_def)
next
  assume a: "r_GetCacheBytes env (store w) (Sprintf_s_d ''icon:'' host port) = (False, iv, t, e)
      \<and> mcutil_Status env host port = Inr status
      \<and> mcj_Favicon status = Some (''data:image/png;base64,'' @ rest)
      \<and> base64_DecodeString env rest = Inl de"
  have p: "HasPrefix (pngPrefix @ rest) pngPrefix"
    by (simp add: HasPrefix_iff)
  have "base64_DecodeString env (TrimPrefix (pngPrefix @ rest) pngPrefix) = Inl de"
    using a by (simp add: TrimPrefix_append)
  then show "fst (GetServerIcon env host port w) = (None, None, Some de)"
    using a p GetServerIcon_decode_error [of env w host port iv t e status "pngPrefix @ rest" de]
    by (simp add: pngPrefix_def)
next
  assume a: "r_GetCacheBytes env (store w) (Sprintf_s_d ''icon:'' host port) = (False, iv, t, e)
      \<and> mcutil_Status env host port = Inr status
      \<and> mcj_Favicon status = Some (''data:image/png;base64,'' @ rest)
      \<and> base64_DecodeString env rest = Inr data"
  have p: "HasPrefix (pngPrefix @ rest) pngPrefix"
    by (simp add: HasPrefix_iff)
  have "base64_DecodeString env (TrimPrefix (pngPrefix @ rest) pngPrefix) = Inr data"
    using a by (simp add: TrimPrefix_append)
  then show "fst (GetServerIcon env host port w) =
        (case fst (r_Set env (store w) (Sprintf_s_d ''icon:'' host port) data
                     (config_IconCacheDuration env)) of
           None \<Rightarrow> (data, None, None)
         | Some err \<Rightarrow> (None, None, Some err))"
    using a p GetServerIcon_decoded [of env w host port iv t e status "pngPrefix @ rest" data]
    by (simp add: pngPrefix_def setIcon_fst)
qed

theorem cache_hit_or_fresh_witness:
  "GetJavaStatus exampleEnv ''h'' 25565 warmWorld =
     ((''{cached}'', Some 42, None),
      warmWorld\<lparr>calls := [Call_GetCacheString ''java:h-25565'']\<rparr>)
   \<and> resTTL (fst (GetJavaStatus exampleEnv ''h'' 25565 emptyWorld)) = None
   \<and> fst (GetJavaStatus exampleEnv ''h'' 25565 emptyWorld) = (''{offline}'', None, None)
   \<and> GetBedrockStatus exampleEnv ''h'' 25565 warmWorld =
     ((''{cached}'', Some 43, None),
      warmWorld\<lparr>calls := [Call_GetCacheString ''bedrock:h-25565'']\<rparr>)
   \<and> resTTL (fst (GetBedrockStatus exampleEnv ''h'' 25565 emptyWorld)) = None
   \<and> fst (GetBedrockStatus exampleEnv ''h'' 25565 emptyWorld) = (''{offline}'', None, None)
   \<and> GetServerIcon exampleEnv ''h'' 25565 warmWorld =
     ((Some ''cached.png'', Some 44, None),
      warmWorld\<lparr>calls := [Call_GetCacheBytes ''icon:h-25565'']\<rparr>)
   \<and> resTTL (fst (GetServerIcon exampleEnv ''h'' 25565 emptyWorld)) = None
   \<and> last (calls (snd (GetServerIcon exampleEnv ''h'' 25565 emptyWorld))) =
       Call_Set ''icon:h-25565'' (Some ''default.png'') 3600
   \<and> fst (GetJavaStatus envNoMarshal ''h'' 25565 emptyWorld)
       = ([], None, Some (Error ''json: unsupported value''))
   \<and> fst (GetJavaStatus envNoSet ''h'' 25565 emptyWorld) = ([], None, Some (Error ''READONLY''))
   \<and> fst (GetBedrockStatus envNoMarshal ''h'' 25565 emptyWorld)
       = ([], None, Some (Error ''json: unsupported value''))
   \<and> fst (GetBedrockStatus envNoSet ''h'' 25565 emptyWorld)
       = ([], None, Some (Error ''READONLY''))
   \<and> fst (GetServerIcon exampleEnv ''h'' 25565 emptyWorld) = (Some ''default.png'', None, None)
   \<and> fst (GetServerIcon envNoSet ''h'' 25565 emptyWorld) = (None, None, Some (Error ''READONLY''))
   \<and> fst (GetServerIcon envModern ''h'' 25565 emptyWorld) = (Some ''default.png'', None, None)
   \<and> fst (GetServerIcon (envFavicon ''http://h/icon.png'') ''h'' 25565 emptyWorld)
       = (Some ''default.png'', None, None)
   \<and> fst (GetServerIcon (envFavicon ''data:image/png;base64,!!!'') ''h'' 25565 emptyWorld)
       = (None, None, Some (Error ''illegal base64 data''))
   \<and> fst (GetServerIcon (envFavicon ''data:image/png;base64,QQ=='') ''h'' 25565 emptyWorld)
       = (Some ''A'', None, None)"
proof -
  have keys: "Sprintf_s_d ''java:'' ''h'' 25565 = ''java:h-25565''"
    "Sprintf_s_d ''bedrock:'' ''h'' 25565 = ''bedrock:h-25565''"
    "Sprintf_s_d ''icon:'' ''h'' 25565 = ''icon:h-25565''"
    by (simp_all add: Sprintf_s_d_def fmt_d.simps digit_def)
  have hitJ: "r_GetCacheString exampleEnv (store warmWorld) ''java:h-25565''
      = (True, ''{cached}'', 42, None)"
    and hitB: "r_GetCacheString exampleEnv (store warmWorld) ''bedrock:h-25565''
      = (True, ''{cached}'', 43, None)"
    and hitI: "r_GetCacheBytes exampleEnv (store warmWorld) ''icon:h-25565''
      = (True, Some ''cached.png'', 44, None)"
    by (simp_all add: exampleEnv_def warmWorld_def elems_def)
  have miss: "r_GetCacheString exampleEnv (store emptyWorld) k = (False, [], 0, None)"
    "r_GetCacheBytes exampleEnv (store emptyWorld) k = (False, None, 0, None)" for k
    by (simp_all add: exampleEnv_def emptyWorld_def)
  have fetched:
    "json_Marshal exampleEnv (fst (FetchJavaStatus exampleEnv ''h'' 25565 emptyWorld))
      = Inr (Some ''{offline}'')"
    "json_Marshal exampleEnv (fst (FetchBedrockStatus exampleEnv ''h'' 25565 emptyWorld))
      = Inr (Some ''{offline}'')"
    by (simp_all add: exampleEnv_def exampleMarshal_def FetchJavaStatus_def
        FetchBedrockStatus_def do_Status_def do_StatusLegacy_def do_StatusBedrock_def)
  have set: "r_Set exampleEnv s k b d = (None, (k, b, d) # s)" for s k b d
    by (simp add: exampleEnv_def)
  have icon: "fst (GetServerIcon exampleEnv ''h'' 25565 emptyWorld)
      = (Some ''default.png'', None, None)"
    by (simp add: GetServerIcon_def keys Let_def do_GetCacheBytes_def setIcon_def
        do_Status_def do_Set_def logged_def exampleEnv_def emptyWorld_def)
  have dur: "config_IconCacheDuration exampleEnv = 3600"
    by (simp add: exampleEnv_def)
  note c = cache_hit_or_fresh
  have j1: "GetJavaStatus exampleEnv ''h'' 25565 warmWorld =
     ((''{cached}'', Some 42, None),
      warmWorld\<lparr>calls := [Call_GetCacheString ''java:h-25565'']\<rparr>)"
    using c [where env = exampleEnv and host = "''h''" and port = 25565 and w = warmWorld
        and v = "''{cached}''" and t = 42 and e = None,
        THEN conjunct1] hitJ
    by (simp add: keys) (simp add: warmWorld_def)
  have j2: "resTTL (fst (GetJavaStatus exampleEnv ''h'' 25565 emptyWorld)) = None"
    using c [where env = exampleEnv and host = "''h''" and port = 25565 and w = emptyWorld
        and v = "[]" and t = 0 and e = None,
        THEN conjunct2, THEN conjunct1]
    by (simp add: miss)
  have j3: "fst (GetJavaStatus exampleEnv ''h'' 25565 emptyWorld) = (''{offline}'', None, None)"
    using c [where env = exampleEnv and host = "''h''" and port = 25565 and w = emptyWorld
        and v = "[]" and t = 0 and e = None and b = "Some ''{offline}''"
        and s' = "(Sprintf_s_d ''java:'' ''h'' 25565, Some ''{offline}'',
                   config_JavaCacheDuration exampleEnv) # store emptyWorld",
        THEN conjunct2, THEN conjunct2, THEN conjunct1]
    by (simp add: miss fetched set elems_def)
  have b1: "GetBedrockStatus exampleEnv ''h'' 25565 warmWorld =
     ((''{cached}'', Some 43, None),
      warmWorld\<lparr>calls := [Call_GetCacheString ''bedrock:h-25565'']\<rparr>)"
    using c [where env = exampleEnv and host = "''h''" and port = 25565 and w = warmWorld
        and v = "''{cached}''" and t = 43 and e = None,
        THEN conjunct2, THEN conjunct2, THEN conjunct2, THEN conjunct1] hitB
    by (simp add: keys) (simp add: warmWorld_def)
  have b2: "resTTL (fst (GetBedrockStatus exampleEnv ''h'' 25565 emptyWorld)) = None"
    using c [where env = exampleEnv and host = "''h''" and port = 25565 and w = emptyWorld
        and v = "[]" and t = 0 and e = None,
        THEN conjunct2, THEN conjunct2, THEN conjunct2, THEN conjunct2,
        THEN conjunct1]
    by (simp add: miss)
  have b3: "fst (GetBedrockStatus exampleEnv ''h'' 25565 emptyWorld) = (''{offline}'', None, None)"
    using c [where env = exampleEnv and host = "''h''" and port = 25565 and w = emptyWorld
        and v = "[]" and t = 0 and e = None and b = "Some ''{offline}''"
        and s' = "(Sprintf_s_d ''bedrock:'' ''h'' 25565, Some ''{offline}'',
                   config_BedrockCacheDuration exampleEnv) # store emptyWorld",
        THEN conjunct2, THEN conjunct2, THEN conjunct2, THEN conjunct2,
        THEN conjunct2, THEN conjunct1]
    by (simp add: miss fetched set elems_def)
  have i1: "GetServerIcon exampleEnv ''h'' 25565 warmWorld =
     ((Some ''cached.png'', Some 44, None),
      warmWorld\<lparr>calls := [Call_GetCacheBytes ''icon:h-25565'']\<rparr>)"
    using c [where env = exampleEnv and host = "''h''" and port = 25565 and w = warmWorld
        and iv = "Some ''cached.png''" and t = 44 and e = None,
        THEN conjunct2, THEN conjunct2, THEN conjunct2, THEN conjunct2,
        THEN conjunct2, THEN conjunct2, THEN conjunct1] hitI
    by (simp add: keys) (simp add: warmWorld_def)
  have i2: "resTTL (fst (GetServerIcon exampleEnv ''h'' 25565 emptyWorld)) = None"
    using c [where env = exampleEnv and host = "''h''" and port = 25565 and w = emptyWorld
        and iv = None and t = 0 and e = None,
        THEN conjunct2, THEN conjunct2, THEN conjunct2, THEN conjunct2,
        THEN conjunct2, THEN conjunct2, THEN conjunct2, THEN conjunct1]
    by (simp add: miss)
  have i3: "last (calls (snd (GetServerIcon exampleEnv ''h'' 25565 emptyWorld))) =
       Call_Set ''icon:h-25565'' (Some ''default.png'') 3600"
    using c [where env = exampleEnv and host = "''h''" and port = 25565 and w = emptyWorld
        and iv = None and t = 0 and e = None,
        THEN conjunct2, THEN conjunct2, THEN conjunct2, THEN conjunct2,
        THEN conjunct2, THEN conjunct2, THEN conjunct2, THEN conjunct2,
        THEN conjunct1]
    by (simp add: miss icon resErr_def resValue_def keys dur)
  have missN: "r_GetCacheString envNoMarshal (store emptyWorld) k = (False, [], 0, None)"
    "r_GetCacheString envNoSet (store emptyWorld) k = (False, [], 0, None)"
    "r_GetCacheBytes envNoSet (store emptyWorld) k = (False, None, 0, None)"
    "r_GetCacheBytes envModern (store emptyWorld) k = (False, None, 0, None)"
    "r_GetCacheBytes (envFavicon f) (store emptyWorld) k = (False, None, 0, None)" for k f
    by (simp_all add: envNoMarshal_def envNoSet_def envModern_def envFavicon_def exampleEnv_def
        emptyWorld_def)
  have marshalN: "json_Marshal envNoMarshal r = Inl (Error ''json: unsupported value'')" for r
    by (simp add: envNoMarshal_def)
  have fetchedN:
    "json_Marshal envNoSet (fst (FetchJavaStatus envNoSet ''h'' 25565 emptyWorld))
      = Inr (Some ''{offline}'')"
    "json_Marshal envNoSet (fst (FetchBedrockStatus envNoSet ''h'' 25565 emptyWorld))
      = Inr (Some ''{offline}'')"
    by (simp_all add: envNoSet_def exampleEnv_def exampleMarshal_def FetchJavaStatus_def
        FetchBedrockStatus_def do_Status_def do_StatusLegacy_def do_StatusBedrock_def)
  have setN: "fst (r_Set envNoSet s k b d) = Some (Error ''READONLY'')"
    "fst (r_Set exampleEnv s k b d) = None" "fst (r_Set envModern s k b d) = None"
    "fst (r_Set (envFavicon f) s k b d) = None" for s k b d f
    by (simp_all add: envNoSet_def exampleEnv_def envModern_def envFavicon_def)
  have failed: "mcutil_Status exampleEnv ''h'' 25565 = Inl (Error ''connection refused'')"
    "mcutil_Status envNoSet ''h'' 25565 = Inl (Error ''connection refused'')"
    by (simp_all add: exampleEnv_def envNoSet_def)
  have modern: "mcutil_Status envModern ''h'' 25565 = Inr (exampleJava None)"
    by (simp add: envModern_def)
  have fav: "mcutil_Status (envFavicon f) ''h'' 25565 = Inr (exampleJava (Some f))" for f
    by (simp add: envFavicon_def)
  have favicon: "mcj_Favicon (exampleJava f) = f" for f
    by (simp add: exampleJava_def)
  have default: "defaultIconBytes exampleEnv = Some ''default.png''"
    "defaultIconBytes envModern = Some ''default.png''"
    "defaultIconBytes (envFavicon f) = Some ''default.png''" for f
    by (simp_all add: exampleEnv_def envModern_def envFavicon_def)
  have other: "\<not> HasPrefix ''http://h/icon.png'' ''data:image/png;base64,''"
    by (simp add: HasPrefix_def)
  have decode: "base64_DecodeString (envFavicon f) ''!!!'' = Inl (Error ''illegal base64 data'')"
    "base64_DecodeString (envFavicon f) ''QQ=='' = Inr (Some ''A'')" for f
    by (simp_all add: envFavicon_def exampleEnv_def)
  have j4: "fst (GetJavaStatus envNoMarshal ''h'' 25565 emptyWorld)
       = ([], None, Some (Error ''json: unsupported value''))"
    using c [where env = envNoMarshal and host = "''h''" and port = 25565 and w = emptyWorld
        and v = "[]" and t = 0 and e = None,
        THEN conjunct2, THEN conjunct2, THEN conjunct2, THEN conjunct2,
        THEN conjunct2, THEN conjunct2, THEN conjunct2, THEN conjunct2,
        THEN conjunct2, THEN conjunct1]
    by (simp add: missN marshalN)
  have j5: "fst (GetJavaStatus envNoSet ''h'' 25565 emptyWorld)
       = ([], None, Some (Error ''READONLY''))"
    using c [where env = envNoSet and host = "''h''" and port = 25565 and w = emptyWorld
        and v = "[]" and t = 0 and e = None,
        THEN conjunct2, THEN conjunct2, THEN conjunct2, THEN conjunct2,
        THEN conjunct2, THEN conjunct2, THEN conjunct2, THEN conjunct2,
        THEN conjunct2, THEN conjunct1]
    by (simp add: missN fetchedN setN)
  have b4: "fst (GetBedrockStatus envNoMarshal ''h'' 25565 emptyWorld)
       = ([], None, Some (Error ''json: unsupported value''))"
    using c [where env = envNoMarshal and host = "''h''" and port = 25565 and w = emptyWorld
        and v = "[]" and t = 0 and e = None,
        THEN conjunct2, THEN conjunct2, THEN conjunct2, THEN conjunct2,
        THEN conjunct2, THEN conjunct2, THEN conjunct2, THEN conjunct2,
        THEN conjunct2, THEN conjunct2, THEN conjunct1]
    by (simp add: missN marshalN)
  have b5: "fst (GetBedrockStatus envNoSet ''h'' 25565 emptyWorld)
       = ([], None, Some (Error ''READONLY''))"
    using c [where env = envNoSet and host = "''h''" and port = 25565 and w = emptyWorld
        and v = "[]" and t = 0 and e = None,
        THEN conjunct2, THEN conjunct2, THEN conjunct2, THEN conjunct2,
        THEN conjunct2, THEN conjunct2, THEN conjunct2, THEN conjunct2,
        THEN conjunct2, THEN conjunct2, THEN conjunct1]
    by (simp add: missN fetchedN setN)
  have i4: "fst (GetServerIcon exampleEnv ''h'' 25565 emptyWorld)
       = (Some ''default.png'', None, None)"
    using c [where env = exampleEnv and host = "''h''" and port = 25565 and w = emptyWorld
        and iv = None and t = 0 and e = None and qe = "Error ''connection refused''",
        THEN conjunct2, THEN conjunct2, THEN conjunct2, THEN conjunct2,
        THEN conjunct2, THEN conjunct2, THEN conjunct2, THEN conjunct2,
        THEN conjunct2, THEN conjunct2, THEN conjunct2, THEN conjunct1]
    by (simp add: missN miss failed setN default)
  have i5: "fst (GetServerIcon envNoSet ''h'' 25565 emptyWorld)
       = (None, None, Some (Error ''READONLY''))"
    using c [where env = envNoSet and host = "''h''" and port = 25565 and w = emptyWorld
        and iv = None and t = 0 and e = None and qe = "Error ''connection refused''",
        THEN conjunct2, THEN conjunct2, THEN conjunct2, THEN conjunct2,
        THEN conjunct2, THEN conjunct2, THEN conjunct2, THEN conjunct2,
        THEN conjunct2, THEN conjunct2, THEN conjunct2, THEN conjunct1]
    by (simp add: missN failed setN)
  have i6: "fst (GetServerIcon envModern ''h'' 25565 emptyWorld)
       = (Some ''default.png'', None, None)"
    using c [where env = envModern and host = "''h''" and port = 25565 and w = emptyWorld
        and iv = None and t = 0 and e = None and status = "exampleJava None",
        THEN conjunct2, THEN conjunct2, THEN conjunct2, THEN conjunct2,
        THEN conjunct2, THEN conjunct2, THEN conjunct2, THEN conjunct2,
        THEN conjunct2, THEN conjunct2, THEN conjunct2, THEN conjunct2,
        THEN conjunct1]
    by (simp add: missN modern favicon setN default)
  have i7: "fst (GetServerIcon (envFavicon ''http://h/icon.png'') ''h'' 25565 emptyWorld)
       = (Some ''default.png'', None, None)"
    using c [where env = "envFavicon ''http://h/icon.png''" and host = "''h''"
        and port = 25565 and w = emptyWorld and iv = None and t = 0 and e = None
        and status = "exampleJava (Some ''http://h/icon.png'')"
        and favicon = "''http://h/icon.png''",
        THEN conjunct2, THEN conjunct2, THEN conjunct2, THEN conjunct2,
        THEN conjunct2, THEN conjunct2, THEN conjunct2, THEN conjunct2,
        THEN conjunct2, THEN conjunct2, THEN conjunct2, THEN conjunct2,
        THEN conjunct2, THEN conjunct1] other
    by (simp add: missN fav favicon setN default)
  have i8: "fst (GetServerIcon (envFavicon ''data:image/png;base64,!!!'') ''h'' 25565 emptyWorld)
       = (None, None, Some (Error ''illegal base64 data''))"
    using c [where env = "envFavicon ''data:image/png;base64,!!!''" and host = "''h''"
        and port = 25565 and w = emptyWorld and iv = None and t = 0 and e = None
        and status = "exampleJava (Some ''data:image/png;base64,!!!'')"
        and rest = "''!!!''" and de = "Error ''illegal base64 data''",
        THEN conjunct2, THEN conjunct2, THEN conjunct2, THEN conjunct2,
        THEN conjunct2, THEN conjunct2, THEN conjunct2, THEN conjunct2,
        THEN conjunct2, THEN conjunct2, THEN conjunct2, THEN conjunct2,
        THEN conjunct2, THEN conjunct2, THEN conjunct1]
    by (simp add: missN fav favicon decode)
  have i9: "fst (GetServerIcon (envFavicon ''data:image/png;base64,QQ=='') ''h'' 25565 emptyWorld)
       = (Some ''A'', None, None)"
    using c [where env = "envFavicon ''data:image/png;base64,QQ==''" and host = "''h''"
        and port = 25565 and w = emptyWorld and iv = None and t = 0 and e = None
        and status = "exampleJava (Some ''data:image/png;base64,QQ=='')"
        and rest = "''QQ==''" and data = "Some ''A''",
        THEN conjunct2, THEN conjunct2, THEN conjunct2, THEN conjunct2,
        THEN conjunct2, THEN conjunct2, THEN conjunct2, THEN conjunct2,
        THEN conjunct2, THEN conjunct2, THEN conjunct2, THEN conjunct2,
        THEN conjunct2, THEN conjunct2, THEN conjunct2]
    by (simp add: missN fav favicon decode setN)
  from j1 j2 j3 b1 b2 b3 i1 i2 i3 j4 j5 b4 b5 i4 i5 i6 i7 i8 i9 show ?thesis
    by simp
qed

text \<open>
  C8 as the claim has it fails: on a miss the value returned is not always the freshly
  computed one. With a store that refuses writes, the record is fetched and marshalled,
  \<open>r.Set\<close> fails, and \<open>GetJavaStatus\<close> returns the empty string with the error; nothing is
  stored.
\<close>

theorem miss_without_fresh_value:
  "fst (r_GetCacheString envNoSet (store emptyWorld) ''java:h-25565'') = False
   \<and> json_Marshal envNoSet (fst (FetchJavaStatus envNoSet ''h'' 25565 emptyWorld))
       = Inr (Some ''{offline}'')
   \<and> fst (GetJavaStatus envNoSet ''h'' 25565 emptyWorld) = ([], None, Some (Error ''READONLY''))
   \<and> store (snd (GetJavaStatus envNoSet ''h'' 25565 emptyWorld)) = []"
proof -
  have key: "Sprintf_s_d ''java:'' ''h'' 25565 = ''java:h-25565''"
    by (simp add: Sprintf_s_d_def fmt_d.simps digit_def)
  have "GetJavaStatus envNoSet ''h'' 25565 emptyWorld =
     (([], None, Some (Error ''READONLY'')),
      \<lparr>store = [],
       calls = [Call_GetCacheString ''java:h-25565'', Call_Status ''h'' 25565,
                Call_StatusLegacy ''h'' 25565,
                Call_Set ''java:h-25565'' (Some ''{offline}'') 60]\<rparr>)"
    by (simp add: GetJavaStatus_def key Let_def do_GetCacheString_def FetchJavaStatus_def
        do_Status_def do_StatusLegacy_def do_Set_def logged_def envNoSet_def exampleEnv_def
        exampleMarshal_def emptyWorld_def)
  moreover have "json_Marshal envNoSet (fst (FetchJavaStatus envNoSet ''h'' 25565 emptyWorld))
       = Inr (Some ''{offline}'')"
    by (simp add: envNoSet_def exampleEnv_def exampleMarshal_def FetchJavaStatus_def
        do_Status_def do_StatusLegacy_def)
  moreover have "fst (r_GetCacheString envNoSet (store emptyWorld) ''java:h-25565'') = False"
    by (simp add: envNoSet_def exampleEnv_def emptyWorld_def)
  ultimately show ?thesis
    by simp
qed

text \<open>
  C3, as the code has it. Every call that an operation makes to the store, the read and
  the write alike, uses one key: \<open>"java:"\<close>, \<open>"bedrock:"\<close> or \<open>"icon:"\<close>, then the host as
  given, then \<open>"-"\<close>, then the port in decimal digits (the digits denote the port's value).
\<close>

theorem cache_keys_used:
  "set (List.map_filter cacheKeyOf (newCalls w (snd (GetJavaStatus env host port w))))
     = {''java:'' @ host @ ''-'' @ fmt_d (unat port)}
   \<and> set (List.map_filter cacheKeyOf (newCalls w (snd (GetBedrockStatus env host port w))))
     = {''bedrock:'' @ host @ ''-'' @ fmt_d (unat port)}
   \<and> set (List.map_filter cacheKeyOf (newCalls w (snd (GetServerIcon env host port w))))
     = {''icon:'' @ host @ ''-'' @ fmt_d (unat port)}
   \<and> value_d (fmt_d (unat port)) = unat port
   \<and> set (fmt_d (unat port)) \<subseteq> set ''0123456789''"
proof -
  have "Sprintf_s_d ''java:'' host port = ''java:'' @ host @ ''-'' @ fmt_d (unat port)"
    and "Sprintf_s_d ''bedrock:'' host port = ''bedrock:'' @ host @ ''-'' @ fmt_d (unat port)"
    and "Sprintf_s_d ''icon:'' host port = ''icon:'' @ host @ ''-'' @ fmt_d (unat port)"
    by (simp_all add: Sprintf_s_d_def)
  then show ?thesis
    using GetJavaStatus_keys [of w env host port] GetBedrockStatus_keys [of w env host port]
      GetServerIcon_keys [of w env host port] value_d_fmt_d [of "unat port"]
      fmt_d_digits [of "unat port"]
    by simp
qed

theorem cache_keys_used_witness:
  "set (List.map_filter cacheKeyOf
          (newCalls emptyWorld (snd (GetJavaStatus exampleEnv ''Play.Example'' 25565 emptyWorld))))
     = {''java:Play.Example-25565''}
   \<and> set (List.map_filter cacheKeyOf
          (newCalls emptyWorld (snd (GetBedrockStatus exampleEnv ''Play.Example'' 25565 emptyWorld))))
     = {''bedrock:Play.Example-25565''}
   \<and> set (List.map_filter cacheKeyOf
          (newCalls emptyWorld (snd (GetServerIcon exampleEnv ''Play.Example'' 25565 emptyWorld))))
     = {''icon:Play.Example-25565''}"
proof -
  have "fmt_d (unat (25565 :: uint16)) = ''25565''"
    by (simp add: fmt_d.simps digit_def)
  then show ?thesis
    using cache_keys_used [of emptyWorld exampleEnv "''Play.Example''" 25565]
    by simp
qed

text \<open>
  C3 as the claim has it fails: the status operations do not use the namespaces
  \<open>"primary"\<close> and \<open>"second"\<close>. For host \<open>h\<close> and port 25565 the keys of the calls are
  \<open>"java:h-25565"\<close> and \<open>"bedrock:h-25565"\<close>.
\<close>

theorem primary_and_second_keys_unused:
  "List.map_filter cacheKeyOf (calls (snd (GetJavaStatus exampleEnv ''h'' 25565 emptyWorld)))
     = [''java:h-25565'', ''java:h-25565'']
   \<and> ''primary:h-25565'' \<notin>
       set (List.map_filter cacheKeyOf (calls (snd (GetJavaStatus exampleEnv ''h'' 25565 emptyWorld))))
   \<and> List.map_filter cacheKeyOf (calls (snd (GetBedrockStatus exampleEnv ''h'' 25565 emptyWorld)))
     = [''bedrock:h-25565'', ''bedrock:h-25565'']
   \<and> ''second:h-25565'' \<notin>
       set (List.map_filter cacheKeyOf (calls (snd (GetBedrockStatus exampleEnv ''h'' 25565 emptyWorld))))"
proof -
  have keys: "Sprintf_s_d ''java:'' ''h'' 25565 = ''java:h-25565''"
    "Sprintf_s_d ''bedrock:'' ''h'' 25565 = ''bedrock:h-25565''"
    by (simp_all add: Sprintf_s_d_def fmt_d.simps digit_def)
  have java: "calls (snd (GetJavaStatus exampleEnv ''h'' 25565 emptyWorld)) =
      [Call_GetCacheString ''java:h-25565'', Call_Status ''h'' 25565,
       Call_StatusLegacy ''h'' 25565, Call_Set ''java:h-25565'' (Some ''{offline}'') 60]"
    by (simp add: GetJavaStatus_def keys Let_def do_GetCacheString_def FetchJavaStatus_def
        do_Status_def do_StatusLegacy_def do_Set_def logged_def exampleEnv_def
        exampleMarshal_def emptyWorld_def)
  have bedrock: "calls (snd (GetBedrockStatus exampleEnv ''h'' 25565 emptyWorld)) =
      [Call_GetCacheString ''bedrock:h-25565'', Call_StatusBedrock ''h'' 25565,
       Call_Set ''bedrock:h-25565'' (Some ''{offline}'') 90]"
    by (simp add: GetBedrockStatus_def keys Let_def do_GetCacheString_def FetchBedrockStatus_def
        do_StatusBedrock_def do_Set_def logged_def exampleEnv_def
        exampleMarshal_def emptyWorld_def)
  show ?thesis
    by (simp add: java bedrock List.map_filter_simps)
qed

text \<open>
  C6, as the code has it. On a cache miss of \<open>GetServerIcon\<close>: when the modern query fails,
  or its favicon is nil, or the favicon does not start with \<open>"data:image/png;base64,"\<close>, the
  default icon is passed to \<open>r.Set\<close>, and it is returned with a nil error if \<open>r.Set\<close>
  succeeds; when the favicon is that prefix followed by a remainder that
  \<open>DecodeString\<close> rejects, the decode error is returned with nil bytes; when the remainder
  decodes, the decoded bytes are passed to \<open>r.Set\<close> and returned if \<open>r.Set\<close> succeeds. In
  both cases with a write, an error of \<open>r.Set\<close> is returned with nil bytes.
\<close>

theorem icon_resolution:
  "(r_GetCacheBytes env (store w) (Sprintf_s_d ''icon:'' host port) = (False, iv, t, e0)
      \<and> mcutil_Status env host port = Inl e \<longrightarrow>
      fst (GetServerIcon env host port w) =
        (case fst (r_Set env (store w) (Sprintf_s_d ''icon:'' host port) (defaultIconBytes env)
                     (config_IconCacheDuration env)) of
           None \<Rightarrow> (defaultIconBytes env, None, None)
         | Some err \<Rightarrow> (None, None, Some err)))
   \<and> (r_GetCacheBytes env (store w) (Sprintf_s_d ''icon:'' host port) = (False, iv, t, e0)
      \<and> mcutil_Status env host port = Inr status \<and> mcj_Favicon status = None \<longrightarrow>
      fst (GetServerIcon env host port w) =
        (case fst (r_Set env (store w) (Sprintf_s_d ''icon:'' host port) (defaultIconBytes env)
                     (config_IconCacheDuration env)) of
           None \<Rightarrow> (defaultIconBytes env, None, None)
         | Some err \<Rightarrow> (None, None, Some err)))
   \<and> (r_GetCacheBytes env (store w) (Sprintf_s_d ''icon:'' host port) = (False, iv, t, e0)
      \<and> mcutil_Status env host port = Inr status \<and> mcj_Favicon status = Some favicon
      \<and> \<not> HasPrefix favicon ''data:image/png;base64,'' \<longrightarrow>
      fst (GetServerIcon env host port w) =
        (case fst (r_Set env (store w) (Sprintf_s_d ''icon:'' host port) (defaultIconBytes env)
                     (config_IconCacheDuration env)) of
           None \<Rightarrow> (defaultIconBytes env, None, None)
         | Some err \<Rightarrow> (None, None, Some err)))
   \<and> (r_GetCacheBytes env (store w) (Sprintf_s_d ''icon:'' host port) = (False, iv, t, e0)
      \<and> mcutil_Status env host port = Inr status
      \<and> mcj_Favicon status = Some (''data:image/png;base64,'' @ rest)
      \<and> base64_DecodeString env rest = Inl e \<longrightarrow>
      fst (GetServerIcon env host port w) = (None, None, Some e))
   \<and> (r_GetCacheBytes env (store w) (Sprintf_s_d ''icon:'' host port) = (False, iv, t, e0)
      \<and> mcutil_Status env host port = Inr status
      \<and> mcj_Favicon status = Some (''data:image/png;base64,'' @ rest)
      \<and> base64_DecodeString env rest = Inr data \<longrightarrow>
      fst (GetServerIcon env host port w) =
        (case fst (r_Set env (store w) (Sprintf_s_d ''icon:'' host port) data
                     (config_IconCacheDuration env)) of
           None \<Rightarrow> (data, None, None)
         | Some err \<Rightarrow> (None, None, Some err)))"
proof (intro conjI impI)
  assume "r_GetCacheBytes env (store w) (Sprintf_s_d ''icon:'' host port) = (False, iv, t, e0)
      \<and> mcutil_Status env host port = Inl e"
  then show "fst (GetServerIcon env host port w) =
        (case fst (r_Set env (store w) (Sprintf_s_d ''icon:'' host port) (defaultIconBytes env)
                     (config_IconCacheDuration env)) of
           None \<Rightarrow> (defaultIconBytes env, None, None)
         | Some err \<Rightarrow> (None, None, Some err))"
    using GetServerIcon_query_failed [of env w host port iv t e0 e]
    by (simp add: setIcon_fst)
next
  assume "r_GetCacheBytes env (store w) (Sprintf_s_d ''icon:'' host port) = (False, iv, t, e0)
      \<and> mcutil_Status env host port = Inr status \<and> mcj_Favicon status = None"
  then show "fst (GetServerIcon env host port w) =
        (case fst (r_Set env (store w) (Sprintf_s_d ''icon:'' host port) (defaultIconBytes env)
                     (config_IconCacheDuration env)) of
           None \<Rightarrow> (defaultIconBytes env, None, None)
         | Some err \<Rightarrow> (None, None, Some err))"
    using GetServerIcon_no_favicon [of env w host port iv t e0 status]
    by (simp add: setIcon_fst)
next
  assume "r_GetCacheBytes env (store w) (Sprintf_s_d ''icon:'' host port) = (False, iv, t, e0)
      \<and> mcutil_Status env host port = Inr status \<and> mcj_Favicon status = Some favicon
      \<and> \<not> HasPrefix favicon ''data:image/png;base64,''"
  then show "fst (GetServerIcon env host port w) =
        (case fst (r_Set env (store w) (Sprintf_s_d ''icon:'' host port) (defaultIconBytes env)
                     (config_IconCacheDuration env)) of
           None \<Rightarrow> (defaultIconBytes env, None, None)
         | Some err \<Rightarrow> (None, None, Some err))"
    using GetServerIcon_other_prefix [of env w host port iv t e0 status favicon]
    by (simp add: setIcon_fst pngPrefix_def)
next
  assume a: "r_GetCacheBytes env (store w) (Sprintf_s_d ''icon:'' host port) = (False, iv, t, e0)
      \<and> mcutil_Status env host port = Inr status
      \<and> mcj_Favicon status = Some (''data:image/png;base64,'' @ rest)
      \<and> base64_DecodeString env rest = Inl e"
  have p: "HasPrefix (pngPrefix @ rest) pngPrefix"
    by (simp add: HasPrefix_iff)
  have "base64_DecodeString env (TrimPrefix (pngPrefix @ rest) pngPrefix) = Inl e"
    using a by (simp add: TrimPrefix_append)
  then show "fst (GetServerIcon env host port w) = (None, None, Some e)"
    using a p GetServerIcon_decode_error [of env w host port iv t e0 status "pngPrefix @ rest" e]
    by (simp add: pngPrefix_def)
next
  assume a: "r_GetCacheBytes env (store w) (Sprintf_s_d ''icon:'' host port) = (False, iv, t, e0)
      \<and> mcutil_Status env host port = Inr status
      \<and> mcj_Favicon status = Some (''data:image/png;base64,'' @ rest)
      \<and> base64_DecodeString env rest = Inr data"
  have p: "HasPrefix (pngPrefix @ rest) pngPrefix"
    by (simp add: HasPrefix_iff)
  have "base64_DecodeString env (TrimPrefix (pngPrefix @ rest) pngPrefix) = Inr data"
    using a by (simp add: TrimPrefix_append)
  then show "fst (GetServerIcon env host port w) =
        (case fst (r_Set env (store w) (Sprintf_s_d ''icon:'' host port) data
                     (config_IconCacheDuration env)) of
           None \<Rightarrow> (data, None, None)
         | Some err \<Rightarrow> (None, None, Some err))"
    using a p GetServerIcon_decoded [of env w host port iv t e0 status "pngPrefix @ rest" data]
    by (simp add: pngPrefix_def setIcon_fst)
qed

theorem icon_resolution_witness:
  "fst (GetServerIcon exampleEnv ''h'' 25565 emptyWorld) = (Some ''default.png'', None, None)
   \<and> fst (GetServerIcon envModern ''h'' 25565 emptyWorld) = (Some ''default.png'', None, None)
   \<and> fst (GetServerIcon (envFavicon ''http://h/icon.png'') ''h'' 25565 emptyWorld)
       = (Some ''default.png'', None, None)
   \<and> fst (GetServerIcon (envFavicon ''data:image/png;base64,!!!'') ''h'' 25565 emptyWorld)
       = (None, None, Some (Error ''illegal base64 data''))
   \<and> fst (GetServerIcon (envFavicon ''data:image/png;base64,QQ=='') ''h'' 25565 emptyWorld)
       = (Some ''A'', None, None)"
proof -
  have miss: "r_GetCacheBytes exampleEnv (store emptyWorld) k = (False, None, 0, None)"
    "r_GetCacheBytes envModern (store emptyWorld) k = (False, None, 0, None)"
    "r_GetCacheBytes (envFavicon f) (store emptyWorld) k = (False, None, 0, None)" for k f
    by (simp_all add: exampleEnv_def envModern_def envFavicon_def emptyWorld_def)
  have failed: "mcutil_Status exampleEnv ''h'' 25565 = Inl (Error ''connection refused'')"
    by (simp add: exampleEnv_def)
  have modern: "mcutil_Status envModern ''h'' 25565 = Inr (exampleJava None)"
    by (simp add: envModern_def)
  have fav: "mcutil_Status (envFavicon f) ''h'' 25565 = Inr (exampleJava (Some f))" for f
    by (simp add: envFavicon_def)
  have favicon: "mcj_Favicon (exampleJava f) = f" for f
    by (simp add: exampleJava_def)
  have set: "fst (r_Set exampleEnv s k b d) = None" "fst (r_Set envModern s k b d) = None"
    "fst (r_Set (envFavicon f) s k b d) = None" for s k b d f
    by (simp_all add: exampleEnv_def envModern_def envFavicon_def)
  have default: "defaultIconBytes exampleEnv = Some ''default.png''"
    "defaultIconBytes envModern = Some ''default.png''"
    "defaultIconBytes (envFavicon f) = Some ''default.png''" for f
    by (simp_all add: exampleEnv_def envModern_def envFavicon_def)
  have other: "\<not> HasPrefix ''http://h/icon.png'' ''data:image/png;base64,''"
    by (simp add: HasPrefix_def)
  have decode: "base64_DecodeString (envFavicon f) ''!!!'' = Inl (Error ''illegal base64 data'')"
    "base64_DecodeString (envFavicon f) ''QQ=='' = Inr (Some ''A'')" for f
    by (simp_all add: envFavicon_def exampleEnv_def)
  note icon = icon_resolution
  have a: "fst (GetServerIcon exampleEnv ''h'' 25565 emptyWorld)
      = (Some ''default.png'', None, None)"
    using icon [where env = exampleEnv and host = "''h''" and port = 25565 and w = emptyWorld
        and iv = None and t = 0 and ?e0.0 = None and e = "Error ''connection refused''"]
    by (simp add: miss failed set default)
  have b: "fst (GetServerIcon envModern ''h'' 25565 emptyWorld)
      = (Some ''default.png'', None, None)"
    using icon [where env = envModern and host = "''h''" and port = 25565 and w = emptyWorld
        and iv = None and t = 0 and ?e0.0 = None and status = "exampleJava None"]
    by (simp add: miss modern favicon set default)
  have c: "fst (GetServerIcon (envFavicon ''http://h/icon.png'') ''h'' 25565 emptyWorld)
      = (Some ''default.png'', None, None)"
    using icon [where env = "envFavicon ''http://h/icon.png''" and host = "''h''"
        and port = 25565 and w = emptyWorld and iv = None and t = 0 and ?e0.0 = None
        and status = "exampleJava (Some ''http://h/icon.png'')"
        and favicon = "''http://h/icon.png''"] other
    by (simp add: miss fav favicon set default)
  have d: "fst (GetServerIcon (envFavicon ''data:image/png;base64,!!!'') ''h'' 25565 emptyWorld)
      = (None, None, Some (Error ''illegal base64 data''))"
    using icon [where env = "envFavicon ''data:image/png;base64,!!!''" and host = "''h''"
        and port = 25565 and w = emptyWorld and iv = None and t = 0 and ?e0.0 = None
        and status = "exampleJava (Some ''data:image/png;base64,!!!'')"
        and rest = "''!!!''" and e = "Error ''illegal base64 data''"]
    by (simp add: miss fav favicon decode)
  have e: "fst (GetServerIcon (envFavicon ''data:image/png;base64,QQ=='') ''h'' 25565 emptyWorld)
      = (Some ''A'', None, None)"
    using icon [where env = "envFavicon ''data:image/png;base64,QQ==''" and host = "''h''"
        and port = 25565 and w = emptyWorld and iv = None and t = 0 and ?e0.0 = None
        and status = "exampleJava (Some ''data:image/png;base64,QQ=='')"
        and rest = "''QQ==''" and data = "Some ''A''"]
    by (simp add: miss fav favicon decode set)
  from a b c d e show ?thesis
    by simp
qed

text \<open>
  C6 as the claim has it fails: a failed query does not always end in the default icon
  with no error. With a store that refuses writes, the query fails, the default icon is
  passed to \<open>r.Set\<close>, and \<open>GetServerIcon\<close> returns nil bytes with the error of \<open>r.Set\<close>.
\<close>

theorem default_icon_not_returned:
  "fst (r_GetCacheBytes envNoSet (store emptyWorld) ''icon:h-25565'') = False
   \<and> mcutil_Status envNoSet ''h'' 25565 = Inl (Error ''connection refused'')
   \<and> defaultIconBytes envNoSet = Some ''default.png''
   \<and> GetServerIcon envNoSet ''h'' 25565 emptyWorld =
       ((None, None, Some (Error ''READONLY'')),
        \<lparr>store = [],
         calls = [Call_GetCacheBytes ''icon:h-25565'', Call_Status ''h'' 25565,
                  Call_Set ''icon:h-25565'' (Some ''default.png'') 3600]\<rparr>)"
proof -
  have key: "Sprintf_s_d ''icon:'' ''h'' 25565 = ''icon:h-25565''"
    by (simp add: Sprintf_s_d_def fmt_d.simps digit_def)
  have "GetServerIcon envNoSet ''h'' 25565 emptyWorld =
       ((None, None, Some (Error ''READONLY'')),
        \<lparr>store = [],
         calls = [Call_GetCacheBytes ''icon:h-25565'', Call_Status ''h'' 25565,
                  Call_Set ''icon:h-25565'' (Some ''default.png'') 3600]\<rparr>)"
    by (simp add: GetServerIcon_def key Let_def do_GetCacheBytes_def setIcon_def
        do_Status_def do_Set_def logged_def envNoSet_def exampleEnv_def emptyWorld_def)
  then show ?thesis
    by (simp add: envNoSet_def exampleEnv_def emptyWorld_def)
qed

text \<open>
  C10. On a cache miss of \<open>GetServerIcon\<close> where the favicon starts with
  \<open>"data:image/png;base64,"\<close> and \<open>DecodeString\<close> rejects the remainder, the decode error is
  returned with nil bytes and a nil TTL; the only calls made are the read of the store and
  the modern query, so \<open>r.Set\<close> is not called, the store is the one the call started with,
  and a read under the icon key gives what it gave before.
\<close>

theorem icon_decode_error_writes_nothing:
  assumes "r_GetCacheBytes env (store w) (Sprintf_s_d ''icon:'' host port) = (False, iv, t, e0)"
    and "mcutil_Status env host port = Inr status"
    and "mcj_Favicon status = Some favicon"
    and "HasPrefix favicon ''data:image/png;base64,''"
    and "base64_DecodeString env (TrimPrefix favicon ''data:image/png;base64,'') = Inl e"
  shows "fst (GetServerIcon env host port w) = (None, None, Some e)
    \<and> newCalls w (snd (GetServerIcon env host port w)) =
        [Call_GetCacheBytes (''icon:'' @ host @ ''-'' @ fmt_d (unat port)), Call_Status host port]
    \<and> filter isSet (newCalls w (snd (GetServerIcon env host port w))) = []
    \<and> store (snd (GetServerIcon env host port w)) = store w
    \<and> r_GetCacheBytes env (store (snd (GetServerIcon env host port w)))
          (''icon:'' @ host @ ''-'' @ fmt_d (unat port))
        = r_GetCacheBytes env (store w) (''icon:'' @ host @ ''-'' @ fmt_d (unat port))"
proof -
  let ?k = "Sprintf_s_d ''icon:'' host port"
  have k: "?k = ''icon:'' @ host @ ''-'' @ fmt_d (unat port)"
    by (simp add: Sprintf_s_d_def)
  have G: "GetServerIcon env host port w =
      ((None, None, Some e), logged (Call_Status host port) (logged (Call_GetCacheBytes ?k) w))"
    using assms GetServerIcon_decode_error [of env w host port iv t e0 status favicon e]
    by (simp add: pngPrefix_def)
  have calls: "calls (snd (GetServerIcon env host port w)) =
      calls w @ [Call_GetCacheBytes ?k, Call_Status host port]"
    by (simp add: G logged_calls)
  have new: "newCalls w (snd (GetServerIcon env host port w)) =
      [Call_GetCacheBytes ?k, Call_Status host port]"
    using calls by (rule newCalls_append)
  have st: "store (snd (GetServerIcon env host port w)) = store w"
    by (simp add: G logged_def)
  have res: "fst (GetServerIcon env host port w) = (None, None, Some e)"
    by (simp add: G)
  have noSet: "filter isSet (newCalls w (snd (GetServerIcon env host port w))) = []"
    by (simp add: new)
  show ?thesis
    unfolding k [symmetric] using res new noSet st by simp
qed

theorem icon_decode_error_writes_nothing_witness:
  "fst (GetServerIcon (envFavicon ''data:image/png;base64,!!!'') ''h'' 25565 warmStatusWorld)
     = (None, None, Some (Error ''illegal base64 data''))
   \<and> newCalls warmStatusWorld
        (snd (GetServerIcon (envFavicon ''data:image/png;base64,!!!'') ''h'' 25565 warmStatusWorld))
     = [Call_GetCacheBytes ''icon:h-25565'', Call_Status ''h'' 25565]
   \<and> store (snd (GetServerIcon (envFavicon ''data:image/png;base64,!!!'') ''h'' 25565
                   warmStatusWorld))
     = [(''java:h-25565'', Some ''{cached}'', 42)]"
proof -
  let ?env = "envFavicon ''data:image/png;base64,!!!''"
  have key: "Sprintf_s_d ''icon:'' ''h'' 25565 = ''icon:h-25565''"
    "fmt_d 25565 = ''25565''"
    by (simp_all add: Sprintf_s_d_def fmt_d.simps digit_def)
  have miss: "r_GetCacheBytes ?env (store warmStatusWorld) (Sprintf_s_d ''icon:'' ''h'' 25565)
      = (False, None, 0, None)"
    by (simp add: key envFavicon_def exampleEnv_def warmStatusWorld_def)
  have status: "mcutil_Status ?env ''h'' 25565
      = Inr (exampleJava (Some ''data:image/png;base64,!!!''))"
    by (simp add: envFavicon_def)
  have favicon: "mcj_Favicon (exampleJava (Some ''data:image/png;base64,!!!''))
      = Some ''data:image/png;base64,!!!''"
    by (simp add: exampleJava_def)
  have pre: "HasPrefix ''data:image/png;base64,!!!'' ''data:image/png;base64,''"
    by (simp add: HasPrefix_def)
  have decode: "base64_DecodeString ?env
      (TrimPrefix ''data:image/png;base64,!!!'' ''data:image/png;base64,'')
      = Inl (Error ''illegal base64 data'')"
    by (simp add: TrimPrefix_def HasPrefix_def envFavicon_def exampleEnv_def)
  have st: "store warmStatusWorld = [(''java:h-25565'', Some ''{cached}'', 42)]"
    by (simp add: warmStatusWorld_def)
  show ?thesis
    using icon_decode_error_writes_nothing [OF miss status favicon pre decode]
    by (simp add: key st)
qed

end
